(* ===== verification/Prelude.thy ===== *)
theory Prelude
  imports Main
begin

text \<open>
  Shared vocabulary of the ingestion model: the errors the script can raise, the outcome
  of a run that may stop on an error part-way (the world it leaves behind is kept, since
  nothing is rolled back), Python's decimal printing and reading of integers, and
  generic list lemmas used by the reader and the loader.
\<close>

named_theorems ingest_simps "evaluation rules of the ingestion model"

section \<open>Errors and outcomes\<close>

text \<open>
  The errors of the script, following the taxonomy of the run: the source cannot be
  fetched or decompressed, pandas rejects the chunk size, a line has too many fields,
  a cell does not convert to its declared type, pandas refuses a frame it cannot write
  (\<open>ValueError\<close>), the database refuses a connection or a statement.
  None is caught in \<^verbatim>\<open>ingest_data.py\<close>; each ends the run.
\<close>

datatype error =
    SourceError string
  | ChunksizeError int
  | TokenizeError nat nat nat
  | CastError string string
  | PdValueError string
  | DbError string

text \<open>
  A run either finishes or stops with an uncaught exception; in both cases the state
  reached so far (database, output) persists.
\<close>

datatype 's outcome = Done 's | Failed error 's

primrec state_of :: "'s outcome \<Rightarrow> 's" where
  "state_of (Done s) = s"
| "state_of (Failed e s) = s"

primrec error_of :: "'s outcome \<Rightarrow> error option" where
  "error_of (Done s) = None"
| "error_of (Failed e s) = Some e"

text \<open>The outcome of a run that reaches a state and then stops as the error says.\<close>

primrec finish :: "error option \<Rightarrow> 's \<Rightarrow> 's outcome" where
  "finish None s = Done s"
| "finish (Some e) s = Failed e s"

section \<open>Python's decimal integers\<close>

text \<open>\<open>str(n)\<close> for a Python \<open>int\<close>: the decimal digits, a minus sign when negative.\<close>

fun digits_nat :: "nat \<Rightarrow> string" where
  "digits_nat n =
     (if n < 10 then [char_of (48 + n)]
      else digits_nat (n div 10) @ [char_of (48 + n mod 10)])"

declare digits_nat.simps [simp del]

definition py_str_int :: "int \<Rightarrow> string" where
  "py_str_int i = (if i < 0 then CHR ''-'' # digits_nat (nat (- i)) else digits_nat (nat i))"

text \<open>Reading decimal digits back, as \<open>int(s)\<close> does on a string of digits.\<close>

definition digit_val :: "char \<Rightarrow> nat option" where
  "digit_val c =
     (let k = (of_char c :: nat) in if 48 \<le> k \<and> k < 58 then Some (k - 48) else None)"

fun digits_val_acc :: "nat \<Rightarrow> string \<Rightarrow> nat option" where
  "digits_val_acc acc [] = Some acc"
| "digits_val_acc acc (c # cs) =
     (case digit_val c of None \<Rightarrow> None | Some d \<Rightarrow> digits_val_acc (10 * acc + d) cs)"

definition nat_of_digits :: "string \<Rightarrow> nat option" where
  "nat_of_digits s = (if s = [] then None else digits_val_acc 0 s)"

definition is_digit :: "char \<Rightarrow> bool" where
  "is_digit c \<longleftrightarrow> digit_val c \<noteq> None"

section \<open>Lemmas on decimal digits\<close>

lemma digit_val_char_of [simp]: "d < 10 \<Longrightarrow> digit_val (char_of (48 + d)) = Some d"
  by (simp add: digit_val_def)

lemma digits_nat_nonempty [simp]: "digits_nat n \<noteq> []"
  by (subst digits_nat.simps) simp

lemma digits_nat_all_digits: "\<forall>c \<in> set (digits_nat n). is_digit c"
proof (induction n rule: digits_nat.induct)
  case (1 n)
  then show ?case
    by (subst digits_nat.simps) (simp add: is_digit_def)
qed

lemma digits_val_acc_append:
  "digits_val_acc acc (xs @ ys) =
     (case digits_val_acc acc xs of None \<Rightarrow> None | Some a \<Rightarrow> digits_val_acc a ys)"
  by (induction acc xs rule: digits_val_acc.induct) (auto split: option.splits)

lemma digits_val_acc_digits_nat:
  "digits_val_acc acc (digits_nat n) = Some (acc * 10 ^ length (digits_nat n) + n)"
proof (induction n arbitrary: acc rule: digits_nat.induct)
  case (1 n)
  show ?case
  proof (cases "n < 10")
    case True
    then show ?thesis by (simp add: digits_nat.simps [of n])
  next
    case False
    then have eq: "digits_nat n = digits_nat (n div 10) @ [char_of (48 + n mod 10)]"
      by (subst digits_nat.simps) simp
    have "n = 10 * (n div 10) + n mod 10" by simp
    with False "1.IH" show ?thesis
      unfolding eq by (simp add: digits_val_acc_append algebra_simps)
  qed
qed

lemma nat_of_digits_digits_nat [simp, ingest_simps]:
  "nat_of_digits (digits_nat n) = Some n"
  by (simp add: nat_of_digits_def digits_val_acc_digits_nat)

lemma digits_nat_inj: "digits_nat m = digits_nat n \<Longrightarrow> m = n"
  by (metis nat_of_digits_digits_nat option.inject)

lemma minus_not_digit [simp]: "\<not> is_digit CHR ''-''"
  by (simp add: is_digit_def digit_val_def)

lemma digits_nat_hd_not_minus [simp]: "digits_nat n \<noteq> CHR ''-'' # cs"
  using digits_nat_all_digits [of n] by (auto simp: is_digit_def digit_val_def)

end
