(* ===== verification/Schema.thy ===== *)
theory Schema
  imports Prelude
begin

text \<open>
  The row schema of \<^verbatim>\<open>ingest_data.py\<close> (lines 12--34): the \<open>dtype\<close> dictionary naming
  the pandas type of sixteen columns and the list \<open>parse_dates\<close> of the two timestamp
  columns; the cells a parsed row holds; the SQL column types pandas' \<open>to_sql\<close>
  chooses for each pandas type. The lemmas show the schema is well formed (no column
  declared twice, no column both typed and parsed as a date) and compute the declared
  type of every column.
\<close>

section \<open>pandas column types and cell values\<close>

text \<open>
  The pandas dtypes that occur: the nullable integer \<open>"Int64"\<close>, \<open>"float64"\<close>, the
  string extension type \<open>"string"\<close>, \<open>datetime64[ns]\<close> (what \<open>parse_dates\<close> produces)
  and \<open>object\<close> (what a column holds when no conversion applies).
\<close>

datatype pd_dtype = Int64 | Float64 | PdString | Datetime64 | PdObject

text \<open>
  A timestamp as \<open>YYYY-MM-DD HH:MM:SS\<close> reads it; a decimal number as mantissa and
  base-ten exponent (the value \<open>m * 10 ^ e\<close>), before any rounding to a double.
\<close>

datatype timestamp = Timestamp nat nat nat nat nat nat

datatype cell = NA | VInt int | VFloat int int | VStr string | VTime timestamp

text \<open>
  The SQL types SQLAlchemy emits for these dtypes in \<open>to_sql\<close>: integers as
  \<open>BIGINT\<close>, \<open>float64\<close> as \<open>FLOAT(53)\<close> (double precision), strings and objects as
  \<open>TEXT\<close>, datetimes as \<open>TIMESTAMP WITHOUT TIME ZONE\<close>.
\<close>

datatype sql_type = BIGINT | DOUBLE_PRECISION | TEXT | TIMESTAMP

primrec sql_type_of :: "pd_dtype \<Rightarrow> sql_type" where
  "sql_type_of Int64 = BIGINT"
| "sql_type_of Float64 = DOUBLE_PRECISION"
| "sql_type_of PdString = TEXT"
| "sql_type_of Datetime64 = TIMESTAMP"
| "sql_type_of PdObject = TEXT"

section \<open>The schema of the script\<close>

definition dtype :: "(string \<times> pd_dtype) list" where
  "dtype =
    [(''VendorID'', Int64),
     (''passenger_count'', Int64),
     (''trip_distance'', Float64),
     (''RatecodeID'', Int64),
     (''store_and_fwd_flag'', PdString),
     (''PULocationID'', Int64),
     (''DOLocationID'', Int64),
     (''payment_type'', Int64),
     (''fare_amount'', Float64),
     (''extra'', Float64),
     (''mta_tax'', Float64),
     (''tip_amount'', Float64),
     (''tolls_amount'', Float64),
     (''improvement_surcharge'', Float64),
     (''total_amount'', Float64),
     (''congestion_surcharge'', Float64)]"

definition parse_dates :: "string list" where
  "parse_dates = [''tpep_pickup_datetime'', ''tpep_dropoff_datetime'']"

text \<open>
  The type a column is read with: a \<open>parse_dates\<close> column is a datetime, a column of
  \<open>dtype\<close> has its declared type, any other column is inferred from its cells
  (\<open>None\<close>).
\<close>

definition declared_type :: "string \<Rightarrow> pd_dtype option" where
  "declared_type c = (if c \<in> set parse_dates then Some Datetime64 else map_of dtype c)"

text \<open>The columns the script gives a type, in the order of the source.\<close>

definition declared_columns :: "string list" where
  "declared_columns = map fst dtype @ parse_dates"

definition schema_wf :: "bool" where
  "schema_wf \<longleftrightarrow> distinct declared_columns \<and> Datetime64 \<notin> snd ` set dtype"

section \<open>Lemmas\<close>

lemma schema_wf_holds: "schema_wf"
  by (simp add: schema_wf_def declared_columns_def dtype_def parse_dates_def)

lemma declared_type_Some_iff: "declared_type c \<noteq> None \<longleftrightarrow> c \<in> set declared_columns"
  using map_of_eq_None_iff [of dtype c] by (auto simp: declared_type_def declared_columns_def)

lemma declared_type_dtype:
  "(c, t) \<in> set dtype \<Longrightarrow> declared_type c = Some t"
proof -
  assume mem: "(c, t) \<in> set dtype"
  have "distinct (map fst dtype)" and "c \<notin> set parse_dates"
    using mem by (auto simp: dtype_def parse_dates_def)
  with mem show ?thesis by (simp add: declared_type_def)
qed

lemma declared_type_parse_dates:
  "c \<in> set parse_dates \<Longrightarrow> declared_type c = Some Datetime64"
  by (simp add: declared_type_def)

end
