(* ===== verification/Cells.thy ===== *)
theory Cells
  imports Schema
begin

text \<open>
  How \<open>pd.read_csv(..., dtype=dtype, parse_dates=parse_dates)\<close> turns the text tokens of
  one chunk into typed cells (pandas' C parser, modelled from its documented behaviour):
  the default NA tokens become \<open>NA\<close>; an \<open>Int64\<close> column accepts integral decimal
  numbers within the 64-bit range; a \<open>float64\<close> column accepts decimal numbers; a
  \<open>string\<close> column keeps the token; a \<open>parse_dates\<close> column becomes datetimes when
  every token of the chunk is a valid \<open>YYYY-MM-DD HH:MM:SS\<close> timestamp, and stays text
  otherwise (pandas returns the strings when \<open>to_datetime\<close> fails); an undeclared
  column is inferred per chunk. A line with more fields than the header is a tokenizer
  error; a shorter line is padded with NA. A source without rows gives the empty frame,
  typed by the \<open>dtype\<close> dictionary alone. Only the timestamp format of the TLC files,
  \<open>%Y-%m-%d %H:%M:%S\<close>, is recognised (pandas infers the format from the first
  value and would accept others); \<open>float64\<close> does not accept \<open>inf\<close> or \<open>nan\<close> spelled
  other than as NA tokens.
  The lemmas give the shape of a converted chunk, the \<open>Int64\<close> round trip of
  printed integers and the 64-bit range of every \<open>Int64\<close> cell, and the text
  fallback of a date column.
\<close>

section \<open>NA tokens\<close>

definition na_values :: "string list" where
  "na_values =
    [''-1.#IND'', ''1.#QNAN'', ''1.#IND'', ''-1.#QNAN'', ''#N/A N/A'', ''#N/A'', ''N/A'',
     ''n/a'', ''NA'', ''<NA>'', ''#NA'', ''NULL'', ''null'', ''NaN'', ''-NaN'', ''nan'',
     ''-nan'', ''None'', '''']"

definition is_na :: "string \<Rightarrow> bool" where
  "is_na s \<longleftrightarrow> s \<in> set na_values"

section \<open>Decimal numbers\<close>

definition parse_sign :: "string \<Rightarrow> int \<times> string" where
  "parse_sign s =
     (case s of
        [] \<Rightarrow> (1, [])
      | c # r \<Rightarrow> if c = CHR ''-'' then (-1, r) else if c = CHR ''+'' then (1, r) else (1, s))"

definition parse_exponent :: "string \<Rightarrow> int option" where
  "parse_exponent s =
     (case s of
        [] \<Rightarrow> Some 0
      | c # r \<Rightarrow>
          if c = CHR ''e'' \<or> c = CHR ''E''
          then (case parse_sign r of (sg, ds) \<Rightarrow> map_option (\<lambda>n. sg * int n) (nat_of_digits ds))
          else None)"

text \<open>
  \<open>[+-] digits [. digits] [(e|E) [+-] digits]\<close> with at least one digit in the
  mantissa, read as the exact decimal \<open>(m, e)\<close> with value \<open>m * 10 ^ e\<close>.
\<close>

definition parse_decimal :: "string \<Rightarrow> (int \<times> int) option" where
  "parse_decimal s =
     (case parse_sign s of
        (sg, r) \<Rightarrow>
          (let ip = takeWhile is_digit r;
               r1 = dropWhile is_digit r;
               (fp, r2) = (case r1 of
                             [] \<Rightarrow> ([], [])
                           | c # r' \<Rightarrow> if c = CHR ''.''
                                       then (takeWhile is_digit r', dropWhile is_digit r')
                                       else ([], r1))
           in if ip = [] \<and> fp = [] then None
              else (case (digits_val_acc 0 (ip @ fp), parse_exponent r2) of
                      (Some m, Some ex) \<Rightarrow> Some (sg * int m, ex - int (length fp))
                    | _ \<Rightarrow> None)))"

text \<open>An integral decimal as an integer (\<open>Int64\<close> refuses \<open>1.5\<close>, accepts \<open>1.0\<close>).\<close>

definition int_of_decimal :: "int \<times> int \<Rightarrow> int option" where
  "int_of_decimal d =
     (case d of
        (m, e) \<Rightarrow>
          if 0 \<le> e then Some (m * 10 ^ nat e)
          else if m mod 10 ^ nat (- e) = 0 then Some (m div 10 ^ nat (- e)) else None)"

text \<open>The range of pandas' \<open>Int64\<close> (and of the \<open>BIGINT\<close> column it is stored in).\<close>

definition in_int64 :: "int \<Rightarrow> bool" where
  "in_int64 i \<longleftrightarrow> - (2 ^ 63) \<le> i \<and> i < 2 ^ 63"

section \<open>Timestamps\<close>

definition leap_year :: "nat \<Rightarrow> bool" where
  "leap_year y \<longleftrightarrow> (4 dvd y \<and> \<not> 100 dvd y) \<or> 400 dvd y"

definition days_in_month :: "nat \<Rightarrow> nat \<Rightarrow> nat" where
  "days_in_month y m =
     (if m = 2 then (if leap_year y then 29 else 28)
      else if m \<in> {4, 6, 9, 11} then 30 else 31)"

definition valid_timestamp :: "timestamp \<Rightarrow> bool" where
  "valid_timestamp t =
     (case t of Timestamp y mo d h mi sec \<Rightarrow>
        1 \<le> mo \<and> mo \<le> 12 \<and> 1 \<le> d \<and> d \<le> days_in_month y mo \<and> h < 24 \<and> mi < 60 \<and> sec < 60)"

text \<open>The format pandas infers for the TLC files, \<open>%Y-%m-%d %H:%M:%S\<close>.\<close>

definition parse_timestamp :: "string \<Rightarrow> timestamp option" where
  "parse_timestamp s =
     (if length s = 19 \<and> s ! 4 = CHR ''-'' \<and> s ! 7 = CHR ''-'' \<and> s ! 10 = CHR '' ''
         \<and> s ! 13 = CHR '':'' \<and> s ! 16 = CHR '':''
      then (case (nat_of_digits (take 4 s), nat_of_digits (take 2 (drop 5 s)),
                  nat_of_digits (take 2 (drop 8 s)), nat_of_digits (take 2 (drop 11 s)),
                  nat_of_digits (take 2 (drop 14 s)), nat_of_digits (take 2 (drop 17 s))) of
              (Some y, Some mo, Some d, Some h, Some mi, Some sec) \<Rightarrow>
                let t = Timestamp y mo d h mi sec in if valid_timestamp t then Some t else None
            | _ \<Rightarrow> None)
      else None)"

section \<open>Columns\<close>

text \<open>A token of a column with a declared (non-date) type.\<close>

definition convert_token :: "pd_dtype \<Rightarrow> string \<Rightarrow> string \<Rightarrow> error + cell" where
  "convert_token t col tok =
     (if is_na tok then Inr NA
      else (case t of
              Int64 \<Rightarrow>
                (case Option.bind (parse_decimal tok) int_of_decimal of
                   Some i \<Rightarrow> if in_int64 i then Inr (VInt i) else Inl (CastError col tok)
                 | None \<Rightarrow> Inl (CastError col tok))
            | Float64 \<Rightarrow>
                (case parse_decimal tok of
                   Some (m, e) \<Rightarrow> Inr (VFloat m e)
                 | None \<Rightarrow> Inl (CastError col tok))
            | _ \<Rightarrow> Inr (VStr tok)))"

text \<open>The first error of a list of conversions, or all their results.\<close>

fun sequence_sum :: "('e + 'a) list \<Rightarrow> 'e + 'a list" where
  "sequence_sum [] = Inr []"
| "sequence_sum (x # xs) =
     (case x of
        Inl e \<Rightarrow> Inl e
      | Inr a \<Rightarrow> (case sequence_sum xs of Inl e \<Rightarrow> Inl e | Inr as \<Rightarrow> Inr (a # as)))"

text \<open>A \<open>parse_dates\<close> column: datetimes if every token parses, else the text kept.\<close>

definition convert_date_column :: "string list \<Rightarrow> pd_dtype \<times> cell list" where
  "convert_date_column toks =
     (case those (map (\<lambda>t. if is_na t then Some NA else map_option VTime (parse_timestamp t)) toks) of
        Some cs \<Rightarrow> (Datetime64, cs)
      | None \<Rightarrow> (PdObject, map (\<lambda>t. if is_na t then NA else VStr t) toks))"

text \<open>
  An undeclared column: integers if every token is an integer and none is missing,
  floats if every token is a number or missing, text otherwise (and for a chunk
  without rows, as pandas gives an empty column the \<open>object\<close> dtype).
\<close>

definition infer_column :: "string list \<Rightarrow> pd_dtype \<times> cell list" where
  "infer_column toks =
     (let ds = map (\<lambda>t. if is_na t then None else parse_decimal t) toks
      in if toks \<noteq> [] \<and> list_all (\<lambda>t. \<not> is_na t) toks
            \<and> list_all (\<lambda>d. case Option.bind d int_of_decimal of Some i \<Rightarrow> in_int64 i | None \<Rightarrow> False) ds
         then (Int64, map (\<lambda>d. case Option.bind d int_of_decimal of Some i \<Rightarrow> VInt i | None \<Rightarrow> NA) ds)
         else if toks \<noteq> [] \<and> list_all (\<lambda>t. is_na t \<or> parse_decimal t \<noteq> None) toks
         then (Float64, map (\<lambda>d. case d of Some (m, e) \<Rightarrow> VFloat m e | None \<Rightarrow> NA) ds)
         else (PdObject, map (\<lambda>t. if is_na t then NA else VStr t) toks))"

definition convert_column :: "string \<Rightarrow> string list \<Rightarrow> error + (pd_dtype \<times> cell list)" where
  "convert_column col toks =
     (case declared_type col of
        Some Datetime64 \<Rightarrow> Inr (convert_date_column toks)
      | Some t \<Rightarrow> map_sum id (\<lambda>cs. (t, cs)) (sequence_sum (map (convert_token t col) toks))
      | None \<Rightarrow> Inr (infer_column toks))"

section \<open>Chunks\<close>

text \<open>
  The tokenizer's check: the first line of the chunk with more fields than the header
  raises \<open>Expected n fields in line l, saw m\<close>; lines are counted from the header.
\<close>

fun check_widths :: "nat \<Rightarrow> nat \<Rightarrow> string list list \<Rightarrow> error option" where
  "check_widths n l [] = None"
| "check_widths n l (r # rs) =
     (if n < length r then Some (TokenizeError n l (length r)) else check_widths n (Suc l) rs)"

definition pad_row :: "nat \<Rightarrow> string list \<Rightarrow> string list" where
  "pad_row n r = r @ replicate (n - length r) ''''"

text \<open>
  The dtype of a column of the empty frame pandas returns for a source without rows
  (\<open>_get_empty_meta\<close>): the type the \<open>dtype\<close> dictionary gives it, \<open>object\<close>
  otherwise; \<open>parse_dates\<close> is not applied on this path.
\<close>

definition empty_column_dtype :: "string \<Rightarrow> pd_dtype" where
  "empty_column_dtype c = (case map_of dtype c of Some t \<Rightarrow> t | None \<Rightarrow> PdObject)"

text \<open>
  One chunk: check the widths, convert column by column, put the rows back together.
  The result is the dtypes of the columns and the rows of cells. A chunk without rows
  only arises for a source without rows; pandas answers it with the empty frame.
\<close>

definition convert_chunk ::
  "string list \<Rightarrow> nat \<Rightarrow> string list list \<Rightarrow> error + (pd_dtype list \<times> cell list list)" where
  "convert_chunk hdr l rows =
     (if rows = [] then Inr (map empty_column_dtype hdr, [])
      else case check_widths (length hdr) l rows of
        Some e \<Rightarrow> Inl e
      | None \<Rightarrow>
          (let prows = map (pad_row (length hdr)) rows
           in case sequence_sum (map (\<lambda>j. convert_column (hdr ! j) (map (\<lambda>r. r ! j) prows))
                                   [0..<length hdr]) of
                Inl e \<Rightarrow> Inl e
              | Inr cols \<Rightarrow>
                  Inr (map fst cols,
                       map (\<lambda>i. map (\<lambda>c. snd c ! i) cols) [0..<length rows])))"

section \<open>Lemmas\<close>

lemma sequence_sum_Inr:
  "sequence_sum xs = Inr ys \<Longrightarrow> list_all2 (\<lambda>x y. x = Inr y) xs ys"
  by (induction xs arbitrary: ys) (auto split: sum.splits)

lemma sequence_sum_map_Inr [simp]: "sequence_sum (map Inr xs) = Inr xs"
  by (induction xs) auto

lemma convert_chunk_shape:
  assumes "convert_chunk hdr l rows = Inr (dts, cells)"
  shows "length dts = length hdr \<and> length cells = length rows \<and> (\<forall>r \<in> set cells. length r = length hdr)"
proof (cases "rows = []")
  case True
  with assms show ?thesis by (auto simp: convert_chunk_def)
next
  case False
  with assms obtain cols where
    seq: "sequence_sum (map (\<lambda>j. convert_column (hdr ! j)
             (map (\<lambda>r. r ! j) (map (pad_row (length hdr)) rows))) [0..<length hdr]) = Inr cols"
    and res: "dts = map fst cols" "cells = map (\<lambda>i. map (\<lambda>c. snd c ! i) cols) [0..<length rows]"
    by (auto simp: convert_chunk_def Let_def split: option.splits sum.splits)
  from seq have "length cols = length hdr"
    by (auto dest!: sequence_sum_Inr dest: list_all2_lengthD)
  with res show ?thesis by auto
qed

lemma convert_chunk_Nil: "convert_chunk hdr l [] = Inr (map empty_column_dtype hdr, [])"
  by (simp add: convert_chunk_def)

lemma is_digit_not_sign: "is_digit c \<Longrightarrow> c \<noteq> CHR ''-'' \<and> c \<noteq> CHR ''+''"
  by (auto simp: is_digit_def digit_val_def)

lemma parse_sign_digits:
  "\<forall>c \<in> set s. is_digit c \<Longrightarrow> parse_sign s = (1, s)"
  by (cases s) (auto simp: parse_sign_def dest: is_digit_not_sign)

lemma parse_decimal_signed_digits:
  assumes sign: "parse_sign s = (sg, digits_nat n)"
  shows "parse_decimal s = Some (sg * int n, 0)"
proof -
  have all: "\<forall>c \<in> set (digits_nat n). is_digit c" by (rule digits_nat_all_digits)
  have tw: "takeWhile is_digit (digits_nat n) = digits_nat n"
    and dw: "dropWhile is_digit (digits_nat n) = []"
    using all by (simp_all add: takeWhile_eq_all_conv dropWhile_eq_Nil_conv)
  have val: "digits_val_acc 0 (digits_nat n) = Some n"
    using digits_val_acc_digits_nat [of 0 n] by simp
  show ?thesis
    using digits_nat_nonempty [of n]
    by (simp add: parse_decimal_def sign tw dw val parse_exponent_def)
qed

lemma parse_decimal_py_str_int: "parse_decimal (py_str_int i) = Some (i, 0)"
proof (cases "i < 0")
  case True
  then have "parse_sign (py_str_int i) = (-1, digits_nat (nat (- i)))"
    by (simp add: py_str_int_def parse_sign_def)
  from parse_decimal_signed_digits [OF this] True show ?thesis by simp
next
  case False
  then have "py_str_int i = digits_nat (nat i)" by (simp add: py_str_int_def)
  then have "parse_sign (py_str_int i) = (1, digits_nat (nat i))"
    using parse_sign_digits [OF digits_nat_all_digits] by simp
  from parse_decimal_signed_digits [OF this] False show ?thesis by simp
qed

lemma na_values_not_numeric:
  "s \<in> set na_values \<Longrightarrow> s = [] \<or> (\<exists>c \<in> set s. \<not> is_digit c \<and> c \<noteq> CHR ''-'')"
  by (auto simp: na_values_def is_digit_def digit_val_def)

lemma py_str_int_not_na: "\<not> is_na (py_str_int i)"
proof
  assume "is_na (py_str_int i)"
  then have "py_str_int i = [] \<or> (\<exists>c \<in> set (py_str_int i). \<not> is_digit c \<and> c \<noteq> CHR ''-'')"
    by (simp add: is_na_def na_values_not_numeric)
  moreover have "\<forall>c \<in> set (py_str_int i). is_digit c \<or> c = CHR ''-''"
    using digits_nat_all_digits by (auto simp: py_str_int_def)
  moreover have "py_str_int i \<noteq> []" by (simp add: py_str_int_def)
  ultimately show False by blast
qed

lemma those_None_iff: "those xs = None \<longleftrightarrow> None \<in> set xs"
proof (induction xs)
  case Nil
  then show ?case by simp
next
  case (Cons x xs)
  then show ?case by (cases x) auto
qed

text \<open>
  C12. An \<open>Int64\<close> column reads back every integer Python prints, exactly, when it
  fits 64 bits, and refuses it with a cast error naming the column and the token when it
  does not.
\<close>

theorem convert_token_Int64_py_str_int:
  "convert_token Int64 col (py_str_int i) =
     (if - (2 ^ 63) \<le> i \<and> i < 2 ^ 63 then Inr (VInt i) else Inl (CastError col (py_str_int i)))"
  by (simp add: convert_token_def py_str_int_not_na parse_decimal_py_str_int int_of_decimal_def in_int64_def)

lemma convert_token_Int64_cell:
  "convert_token Int64 col tok = Inr x \<Longrightarrow> x = NA \<or> (\<exists>i. x = VInt i \<and> - (2 ^ 63) \<le> i \<and> i < 2 ^ 63)"
  by (auto simp: convert_token_def in_int64_def split: if_splits option.splits)

lemma convert_date_column_fallback:
  "t \<in> set toks \<Longrightarrow> \<not> is_na t \<Longrightarrow> parse_timestamp t = None \<Longrightarrow>
   convert_date_column toks = (PdObject, map (\<lambda>t. if is_na t then NA else VStr t) toks)"
proof -
  assume t: "t \<in> set toks" "\<not> is_na t" "parse_timestamp t = None"
  let ?f = "\<lambda>t. if is_na t then Some NA else map_option VTime (parse_timestamp t)"
  from t(2,3) have ft: "?f t = None" by simp
  from t(1) have "?f t \<in> ?f ` set toks" by (rule imageI)
  then have "None \<in> ?f ` set toks" by (simp only: ft)
  then have "those (map ?f toks) = None" by (simp only: those_None_iff set_map)
  then show ?thesis by (simp only: convert_date_column_def option.case)
qed

text \<open>
  C13. A column the script declares \<open>Int64\<close> in \<open>dtype\<close> that converts is an \<open>Int64\<close>
  column with one cell per token, each cell missing or an integer in the signed 64-bit
  range.
\<close>

theorem convert_column_Int64_bounds:
  assumes "(c, Int64) \<in> set dtype" and "convert_column c toks = Inr (t, cs)"
  shows "t = Int64 \<and> length cs = length toks
         \<and> (\<forall>x \<in> set cs. x = NA \<or> (\<exists>i. x = VInt i \<and> - (2 ^ 63) \<le> i \<and> i < 2 ^ 63))"
proof -
  from assms(1) have dt: "declared_type c = Some Int64" by (rule declared_type_dtype)
  obtain ys where seq: "sequence_sum (map (convert_token Int64 c) toks) = Inr ys"
    and t: "t = Int64" and cs: "cs = ys"
    using assms(2) dt
    by (cases "sequence_sum (map (convert_token Int64 c) toks)") (auto simp: convert_column_def)
  from seq have rel: "list_all2 (\<lambda>x y. x = Inr y) (map (convert_token Int64 c) toks) ys"
    by (rule sequence_sum_Inr)
  then have len: "length ys = length toks" by (auto dest: list_all2_lengthD)
  have "\<forall>x \<in> set ys. x = NA \<or> (\<exists>i. x = VInt i \<and> - (2 ^ 63) \<le> i \<and> i < 2 ^ 63)"
  proof
    fix x assume "x \<in> set ys"
    then obtain k where k: "k < length ys" "ys ! k = x" by (auto simp: in_set_conv_nth)
    with rel len have "convert_token Int64 c (toks ! k) = Inr x"
      by (auto simp: list_all2_conv_all_nth)
    then show "x = NA \<or> (\<exists>i. x = VInt i \<and> - (2 ^ 63) \<le> i \<and> i < 2 ^ 63)"
      by (rule convert_token_Int64_cell)
  qed
  with t cs len show ?thesis by simp
qed

theorem convert_column_Int64_bounds_witness:
  "(''VendorID'', Int64) \<in> set dtype
   \<and> convert_column ''VendorID'' [''1'', ''''] = Inr (Int64, [VInt 1, NA])
   \<and> length [VInt 1, NA] = length [''1'', ''''] \<and> - (2 ^ 63) \<le> (1::int) \<and> (1::int) < 2 ^ 63"
proof -
  have h1: "(''VendorID'', Int64) \<in> set dtype" by (simp add: dtype_def)
  have h2: "convert_column ''VendorID'' [''1'', ''''] = Inr (Int64, [VInt 1, NA])" by code_simp
  show ?thesis
    using convert_column_Int64_bounds [OF h1 h2] h1 h2 by simp
qed

text \<open>
  C14. A \<open>parse_dates\<close> column of the script with one token that is neither missing nor
  a valid timestamp is not converted and raises nothing: the whole column of the chunk
  stays text (\<open>object\<close>), missing tokens as NA, every other token as the string read.
\<close>

theorem convert_column_date_fallback:
  assumes "c \<in> set parse_dates" and "t \<in> set toks" and "\<not> is_na t" and "parse_timestamp t = None"
  shows "convert_column c toks = Inr (PdObject, map (\<lambda>t. if is_na t then NA else VStr t) toks)"
  using convert_date_column_fallback [OF assms(2-4)] declared_type_parse_dates [OF assms(1)]
  by (simp add: convert_column_def)

theorem convert_column_date_fallback_witness:
  "convert_column ''tpep_pickup_datetime'' [''2021-01-01 00:30:10'', ''2021-02-29 10:00:00'']
     = Inr (PdObject, [VStr ''2021-01-01 00:30:10'', VStr ''2021-02-29 10:00:00''])"
proof -
  have h0: "''tpep_pickup_datetime'' \<in> set parse_dates" by (simp add: parse_dates_def)
  have h1: "''2021-02-29 10:00:00'' \<in> set [''2021-01-01 00:30:10'', ''2021-02-29 10:00:00'']" by simp
  have h2: "\<not> is_na ''2021-02-29 10:00:00''" by code_simp
  have h3: "parse_timestamp ''2021-02-29 10:00:00'' = None" by code_simp
  have h4: "\<not> is_na ''2021-01-01 00:30:10''" by code_simp
  show ?thesis
    using convert_column_date_fallback [OF h0 h1 h2 h3] h2 h4 by simp
qed

end
