(* ===== verification/Reader.thy ===== *)
theory Reader
  imports Cells
begin

text \<open>
  The chunked reader \<open>pd.read_csv(url, dtype=dtype, parse_dates=parse_dates,
  iterator=True, chunksize=chunksize)\<close> of \<^verbatim>\<open>ingest_data.py\<close> (lines 55--61), modelled
  from pandas' behaviour: the call checks \<open>chunksize >= 1\<close> before it opens the
  source, then fetches the source and reads its header; each \<open>next()\<close> takes the next
  \<open>chunksize\<close> lines, converts them (\<open>Cells.convert_chunk\<close>, so a bad line raises
  only when its chunk is reached) and numbers the rows with a \<open>RangeIndex\<close> that
  continues across chunks. A source with a header and no rows yields one empty chunk.
  Splitting the lines into chunks cannot fail, so the iterator holds the chunks of raw
  lines still to be read; the conversion is what \<open>next()\<close> does lazily.
  The lemmas give the sizes of the chunks, that they partition the source, and the
  frames \<open>next()\<close> returns.
\<close>

section \<open>Data frames and the source\<close>

record frame =
  f_columns :: "string list"
  f_dtypes :: "pd_dtype list"
  f_index :: "nat list"
  f_rows :: "cell list list"

text \<open>\<open>df.head(0)\<close>: the same columns and dtypes, no rows.\<close>

definition head0 :: "frame \<Rightarrow> frame" where
  "head0 df = df\<lparr>f_index := [], f_rows := []\<rparr>"

text \<open>A CSV file after decompression: its header and its lines split into fields.\<close>

record csv_file =
  csv_header :: "string list"
  csv_rows :: "string list list"

section \<open>Splitting into chunks\<close>

function chunk_rows :: "nat \<Rightarrow> 'a list \<Rightarrow> 'a list list" where
  "chunk_rows n xs = (if n = 0 \<or> xs = [] then [] else take n xs # chunk_rows n (drop n xs))"
  by pat_completeness auto
termination
  by (relation "measure (\<lambda>(n, xs). length xs)") auto

declare chunk_rows.simps [simp del]

text \<open>pandas' chunks of a body: one empty chunk when there is no row.\<close>

definition pandas_chunks :: "nat \<Rightarrow> 'a list \<Rightarrow> 'a list list" where
  "pandas_chunks n xs = (if xs = [] then [[]] else chunk_rows n xs)"

section \<open>The iterator\<close>

record df_iter =
  it_header :: "string list"
  it_chunks :: "string list list list"
  it_currow :: nat

definition read_csv :: "(string \<Rightarrow> csv_file option) \<Rightarrow> string \<Rightarrow> int \<Rightarrow> error + df_iter" where
  "read_csv web url chunksize =
     (if chunksize < 1 then Inl (ChunksizeError chunksize)
      else (case web url of
              None \<Rightarrow> Inl (SourceError url)
            | Some f \<Rightarrow>
                if csv_header f = [] then Inl (SourceError ''No columns to parse from file'')
                else Inr \<lparr>it_header = csv_header f,
                          it_chunks = pandas_chunks (nat chunksize) (csv_rows f),
                          it_currow = 0\<rparr>))"

text \<open>
  The frame of one chunk: the header, the converted rows, and the index continuing at
  the row count read so far; lines are numbered from the header (line 1).
\<close>

definition make_frame :: "string list \<Rightarrow> nat \<Rightarrow> string list list \<Rightarrow> error + frame" where
  "make_frame hdr currow rows =
     (case convert_chunk hdr (currow + 2) rows of
        Inl e \<Rightarrow> Inl e
      | Inr (dts, cells) \<Rightarrow>
          Inr \<lparr>f_columns = hdr, f_dtypes = dts,
               f_index = [currow..<currow + length rows], f_rows = cells\<rparr>)"

text \<open>\<open>next(df_iter)\<close>: \<open>None\<close> is \<open>StopIteration\<close>.\<close>

definition iter_next :: "df_iter \<Rightarrow> (error + (frame \<times> df_iter)) option" where
  "iter_next it =
     (case it_chunks it of
        [] \<Rightarrow> None
      | rows # rest \<Rightarrow>
          Some (case make_frame (it_header it) (it_currow it) rows of
                  Inl e \<Rightarrow> Inl e
                | Inr df \<Rightarrow> Inr (df, it\<lparr>it_chunks := rest, it_currow := it_currow it + length rows\<rparr>)))"

section \<open>Lemmas: chunks\<close>

lemma chunk_rows_Nil [simp]: "chunk_rows n [] = []"
  by (simp add: chunk_rows.simps)

lemma chunk_rows_step:
  "0 < n \<Longrightarrow> xs \<noteq> [] \<Longrightarrow> chunk_rows n xs = take n xs # chunk_rows n (drop n xs)"
  by (simp add: chunk_rows.simps [of n xs])

lemma concat_chunk_rows: "0 < n \<Longrightarrow> concat (chunk_rows n xs) = xs"
proof (induction n xs rule: chunk_rows.induct)
  case (1 n xs)
  then show ?case
    by (cases "xs = []") (simp_all add: chunk_rows_step)
qed

lemma chunk_rows_bounds:
  "0 < n \<Longrightarrow> c \<in> set (chunk_rows n xs) \<Longrightarrow> c \<noteq> [] \<and> length c \<le> n"
proof (induction n xs rule: chunk_rows.induct)
  case (1 n xs)
  then show ?case
    by (cases "xs = []") (auto simp: chunk_rows_step)
qed

lemma chunk_rows_lengths:
  "0 < n \<Longrightarrow> map length (chunk_rows n xs) =
     replicate (length xs div n) n @ (if length xs mod n = 0 then [] else [length xs mod n])"
proof (induction n xs rule: chunk_rows.induct)
  case (1 n xs)
  show ?case
  proof (cases "xs = []")
    case True
    then show ?thesis by simp
  next
    case False
    show ?thesis
    proof (cases "length xs < n")
      case True
      with False "1.prems" show ?thesis by (simp add: chunk_rows_step)
    next
      case ge: False
      then have "length xs div n = Suc ((length xs - n) div n)"
        and "length xs mod n = (length xs - n) mod n"
        using "1.prems" by (simp_all add: le_div_geq le_mod_geq)
      with False ge "1.IH" "1.prems" show ?thesis
        by (simp add: chunk_rows_step min_def)
    qed
  qed
qed

lemma length_chunk_rows:
  "0 < n \<Longrightarrow>
     length (chunk_rows n xs) = length xs div n + (if length xs mod n = 0 then 0 else 1)"
proof -
  assume n: "0 < n"
  have "length (chunk_rows n xs) = length (map length (chunk_rows n xs))" by simp
  also have "\<dots> = length xs div n + (if length xs mod n = 0 then 0 else 1)"
    using n by (simp only: chunk_rows_lengths) simp
  finally show ?thesis .
qed

lemma concat_pandas_chunks [simp]: "0 < n \<Longrightarrow> concat (pandas_chunks n xs) = xs"
  by (simp add: pandas_chunks_def concat_chunk_rows)

lemma pandas_chunks_nonempty: "0 < n \<Longrightarrow> pandas_chunks n xs \<noteq> []"
  by (simp add: pandas_chunks_def chunk_rows_step)

lemma read_csv_Inr:
  "0 < chunksize \<Longrightarrow> web url = Some f \<Longrightarrow> csv_header f \<noteq> [] \<Longrightarrow>
   read_csv web url chunksize =
     Inr \<lparr>it_header = csv_header f, it_chunks = pandas_chunks (nat chunksize) (csv_rows f), it_currow = 0\<rparr>"
  by (simp add: read_csv_def)

section \<open>Lemmas: frames\<close>

lemma make_frame_Inr:
  assumes "make_frame hdr c rows = Inr df"
  shows "f_columns df = hdr \<and> f_index df = [c..<c + length rows]
         \<and> length (f_rows df) = length rows \<and> length (f_dtypes df) = length hdr"
  using assms convert_chunk_shape [of hdr "c + 2" rows]
  by (auto simp: make_frame_def split: sum.splits)

lemma iter_next_Inr:
  assumes "iter_next it = Some (Inr (df, it'))"
  shows "\<exists>rows. it_chunks it = rows # it_chunks it' \<and> make_frame (it_header it) (it_currow it) rows = Inr df
           \<and> it_header it' = it_header it \<and> it_currow it' = it_currow it + length rows"
  using assms by (auto simp: iter_next_def split: list.splits sum.splits)

lemma iter_next_decreases:
  "iter_next it = Some (Inr (df, it')) \<Longrightarrow> length (it_chunks it') < length (it_chunks it)"
  by (auto dest!: iter_next_Inr)

lemma pandas_chunk_sizes:
  "0 < n \<Longrightarrow> xs \<noteq> [] \<Longrightarrow>
   map length (pandas_chunks n xs) =
     replicate (length xs div n) n @ (if length xs mod n = 0 then [] else [length xs mod n])"
  by (simp add: pandas_chunks_def chunk_rows_lengths)

lemma pandas_chunks_partition:
  "0 < n \<Longrightarrow>
   concat (pandas_chunks n xs) = xs
   \<and> (\<forall>c \<in> set (pandas_chunks n xs). length c \<le> n \<and> (c = [] \<longrightarrow> xs = []))"
  using chunk_rows_bounds [of n _ xs] by (auto simp: pandas_chunks_def concat_chunk_rows)

text \<open>
  C15. With \<open>chunksize = n\<close>, \<open>read_csv\<close> on a source with rows yields chunks of
  exactly \<open>n\<close> rows, then one shorter chunk holding the remainder when \<open>n\<close> does not
  divide the row count (250 rows and \<open>n = 100\<close> give 100, 100 and 50).
\<close>

theorem read_csv_chunk_sizes:
  assumes "0 < n" and "web url = Some f" and "csv_header f \<noteq> []" and "csv_rows f \<noteq> []"
  shows "\<exists>it. read_csv web url n = Inr it
           \<and> map length (it_chunks it) =
               replicate (length (csv_rows f) div nat n) (nat n)
               @ (if length (csv_rows f) mod nat n = 0 then [] else [length (csv_rows f) mod nat n])"
  using read_csv_Inr [of n web url f, OF assms(1-3)] pandas_chunk_sizes [of "nat n" "csv_rows f"] assms(1,4)
  by simp

theorem read_csv_chunk_sizes_witness:
  "\<exists>it. read_csv (\<lambda>u. Some \<lparr>csv_header = [''VendorID''], csv_rows = replicate 250 [''1'']\<rparr>) ''u'' 100 = Inr it
     \<and> map length (it_chunks it) = [100, 100, 50]"
  using read_csv_chunk_sizes [of 100 "\<lambda>u. Some \<lparr>csv_header = [''VendorID''], csv_rows = replicate 250 [''1'']\<rparr>"
      "''u''" "\<lparr>csv_header = [''VendorID''], csv_rows = replicate 250 [''1'']\<rparr>"]
  by (simp add: numeral_2_eq_2)

text \<open>
  C16. The chunks \<open>read_csv\<close> yields partition the source: concatenated they give its
  rows back in order, none is longer than \<open>chunksize\<close>, and only a source without rows
  yields an empty chunk.
\<close>

theorem read_csv_chunks_partition:
  assumes "0 < n" and "web url = Some f" and "csv_header f \<noteq> []"
  shows "\<exists>it. read_csv web url n = Inr it \<and> concat (it_chunks it) = csv_rows f
           \<and> (\<forall>c \<in> set (it_chunks it). length c \<le> nat n \<and> (c = [] \<longrightarrow> csv_rows f = []))"
  using read_csv_Inr [of n web url f, OF assms(1-3)] pandas_chunks_partition [of "nat n" "csv_rows f"] assms(1)
  by simp

theorem read_csv_chunks_partition_witness:
  "\<exists>it. read_csv (\<lambda>u. Some \<lparr>csv_header = [''VendorID''], csv_rows = [[''1''], [''2''], [''3'']]\<rparr>) ''u'' 2 = Inr it
     \<and> concat (it_chunks it) = [[''1''], [''2''], [''3'']] \<and> map length (it_chunks it) = [2, 1]"
  using read_csv_chunks_partition [of 2 "\<lambda>u. Some \<lparr>csv_header = [''VendorID''], csv_rows = [[''1''], [''2''], [''3'']]\<rparr>"
      "''u''" "\<lparr>csv_header = [''VendorID''], csv_rows = [[''1''], [''2''], [''3'']]\<rparr>"]
  by (simp add: read_csv_def pandas_chunks_def chunk_rows_step)

end
