(* ===== verification/Database.thy ===== *)
theory Database
  imports Reader
begin

text \<open>
  The destination: a PostgreSQL database as a map from table names to tables, and
  pandas' \<open>DataFrame.to_sql(name, con, if_exists=...)\<close> with its defaults
  (\<open>index=True\<close>, index label \<open>"index"\<close>), modelled from pandas and SQLAlchemy:
  the frame's index is written as a first \<open>BIGINT\<close> column named \<open>index\<close> (\<open>level_0\<close>
  when the frame already has a column \<open>index\<close>, and the call raises when that name is
  taken as well); a missing
  table is created with the frame's columns; \<open>replace\<close> drops an existing table first,
  \<open>append\<close> keeps it, \<open>fail\<close> raises; a frame without rows issues no \<open>INSERT\<close>;
  otherwise the rows are inserted by column name, each cell checked against its
  column's type. Each call is one transaction: it happens entirely or not at all.
\<close>

section \<open>Tables and the database\<close>

record table =
  t_columns :: "(string \<times> sql_type) list"
  t_rows :: "cell list list"

type_synonym db = "string \<Rightarrow> table option"

datatype if_exists = Fail | Replace | Append

text \<open>
  Which cells a column of a type accepts: \<open>NULL\<close> anywhere, an integer in a
  \<open>BIGINT\<close> or double column when it fits 64 bits, every other cell in the column of
  its own type (PostgreSQL's other implicit casts are not modelled).
\<close>

definition storable :: "sql_type \<Rightarrow> cell \<Rightarrow> bool" where
  "storable ty c =
     (case c of
        NA \<Rightarrow> True
      | VInt i \<Rightarrow> in_int64 i \<and> (ty = BIGINT \<or> ty = DOUBLE_PRECISION)
      | VFloat m e \<Rightarrow> ty = DOUBLE_PRECISION
      | VStr s \<Rightarrow> ty = TEXT
      | VTime t \<Rightarrow> ty = TIMESTAMP)"

section \<open>\<open>to_sql\<close>\<close>

text \<open>
  The label of the index column (\<open>SQLTable._index_name\<close>): \<open>index\<close>, or
  \<open>level_0\<close> when the frame already has a column named \<open>index\<close>.
\<close>

definition index_label :: "frame \<Rightarrow> string" where
  "index_label df = (if ''index'' \<in> set (f_columns df) then ''level_0'' else ''index'')"

text \<open>The table \<open>to_sql\<close> creates for a frame, and the records it inserts.\<close>

definition frame_schema :: "frame \<Rightarrow> (string \<times> sql_type) list" where
  "frame_schema df = (index_label df, BIGINT) # zip (f_columns df) (map sql_type_of (f_dtypes df))"

definition frame_records :: "frame \<Rightarrow> cell list list" where
  "frame_records df = map2 (\<lambda>i r. VInt (int i) # r) (f_index df) (f_rows df)"

text \<open>
  \<open>INSERT INTO name (cols) VALUES ...\<close>: every named column must exist; a column of
  the table that is not named gets \<open>NULL\<close>; every value must fit its column.
\<close>

definition insert_rows :: "string list \<Rightarrow> cell list list \<Rightarrow> table \<Rightarrow> error + table" where
  "insert_rows cols recs t =
     (case find (\<lambda>c. c \<notin> fst ` set (t_columns t)) cols of
        Some c \<Rightarrow> Inl (DbError (''column '' @ c @ '' does not exist''))
      | None \<Rightarrow>
          (let rows = map (\<lambda>r. map (\<lambda>(c, ty). case map_of (zip cols r) c of Some v \<Rightarrow> v | None \<Rightarrow> NA)
                                  (t_columns t)) recs
           in if list_all (\<lambda>r. list_all2 (\<lambda>(c, ty) v. storable ty v) (t_columns t) r) rows
              then Inr (t\<lparr>t_rows := t_rows t @ rows\<rparr>)
              else Inl (DbError ''invalid input value'')))"

text \<open>
  pandas refuses a frame whose columns already contain the index label (\<open>reset_index\<close>
  in \<open>SQLTable.insert_data\<close> raises, and the transaction of the call is rolled back);
  a frame with no rows issues no \<open>INSERT\<close>.
\<close>

definition write_rows :: "frame \<Rightarrow> table \<Rightarrow> error + table" where
  "write_rows df t =
     (if f_rows df = [] then Inr t
      else insert_rows (index_label df # f_columns df) (frame_records df) t)"

definition to_sql :: "frame \<Rightarrow> string \<Rightarrow> if_exists \<Rightarrow> db \<Rightarrow> error + db" where
  "to_sql df name ie d =
     (if index_label df \<in> set (f_columns df)
      then Inl (PdValueError (''duplicate name in index/columns: cannot insert '' @ index_label df
                              @ '', already exists''))
      else
        (let fresh = \<lparr>t_columns = frame_schema df, t_rows = []\<rparr>
         in case d name of
              None \<Rightarrow> map_sum id (\<lambda>t. d(name \<mapsto> t)) (write_rows df fresh)
            | Some old \<Rightarrow>
                (case ie of
                   Fail \<Rightarrow> Inl (PdValueError (''Table '' @ name @ '' already exists.''))
                 | Replace \<Rightarrow> map_sum id (\<lambda>t. d(name \<mapsto> t)) (write_rows df fresh)
                 | Append \<Rightarrow> map_sum id (\<lambda>t. d(name \<mapsto> t)) (write_rows df old))))"

text \<open>
  A frame as the reader produces it (column names distinct and different from the
  index label, one dtype per column, one index entry and one cell per column in each
  row), and a frame whose records all fit the table \<open>to_sql\<close> would create for it.
\<close>

definition frame_wf :: "frame \<Rightarrow> bool" where
  "frame_wf df \<longleftrightarrow>
     distinct (''index'' # f_columns df) \<and> length (f_dtypes df) = length (f_columns df)
     \<and> length (f_index df) = length (f_rows df)
     \<and> (\<forall>r \<in> set (f_rows df). length r = length (f_columns df))"

definition frame_fits :: "frame \<Rightarrow> bool" where
  "frame_fits df \<longleftrightarrow>
     list_all (\<lambda>r. list_all2 (\<lambda>(c, ty) v. storable ty v) (frame_schema df) r) (frame_records df)"

section \<open>Lemmas\<close>

lemma index_label_plain [simp]: "''index'' \<notin> set (f_columns df) \<Longrightarrow> index_label df = ''index''"
  by (simp add: index_label_def)

lemma index_label_head0 [simp]: "index_label (head0 df) = index_label df"
  unfolding index_label_def head0_def by simp

lemma reorder_by_name:
  assumes "distinct cols" "length tys = length cols" "length r = length cols"
  shows "map (\<lambda>(c, ty). case map_of (zip cols r) c of Some v \<Rightarrow> v | None \<Rightarrow> NA) (zip cols tys) = r"
proof (rule nth_equalityI)
  fix i assume "i < length (map (\<lambda>(c, ty). case map_of (zip cols r) c of Some v \<Rightarrow> v | None \<Rightarrow> NA) (zip cols tys))"
  with assms have i: "i < length cols" by simp
  with assms have "map_of (zip cols r) (cols ! i) = Some (r ! i)"
    by (simp add: map_of_zip_nth)
  with assms i show "map (\<lambda>(c, ty). case map_of (zip cols r) c of Some v \<Rightarrow> v | None \<Rightarrow> NA) (zip cols tys) ! i = r ! i"
    by simp
qed (use assms in simp)

lemma frame_schema_head0 [simp]: "frame_schema (head0 df) = frame_schema df"
  by (simp add: frame_schema_def index_label_def head0_def)

lemma f_columns_head0 [simp]: "f_columns (head0 df) = f_columns df"
  and f_rows_head0 [simp]: "f_rows (head0 df) = []"
  by (simp_all add: head0_def)

lemma to_sql_head0_Replace:
  "''index'' \<notin> set (f_columns df) \<Longrightarrow>
   to_sql (head0 df) name Replace d = Inr (d(name \<mapsto> \<lparr>t_columns = frame_schema df, t_rows = []\<rparr>))"
  by (simp add: to_sql_def write_rows_def Let_def split: option.splits)

lemma length_frame_records:
  "length (f_index df) = length (f_rows df) \<Longrightarrow> length (frame_records df) = length (f_rows df)"
  by (simp add: frame_records_def)

lemma frame_records_length:
  assumes "frame_wf df" "r \<in> set (frame_records df)"
  shows "length r = length (''index'' # f_columns df)"
  using assms by (auto simp: frame_records_def frame_wf_def set_zip)

lemma insert_rows_same_schema:
  assumes wf: "frame_wf df" and fits: "frame_fits df" and sch: "t_columns t = frame_schema df"
  shows "insert_rows (''index'' # f_columns df) (frame_records df) t
           = Inr (t\<lparr>t_rows := t_rows t @ frame_records df\<rparr>)"
proof -
  let ?cols = "''index'' # f_columns df"
  let ?tys = "BIGINT # map sql_type_of (f_dtypes df)"
  have idx: "index_label df = ''index''"
    using wf by (simp add: frame_wf_def)
  have sch': "t_columns t = zip ?cols ?tys"
    using sch idx by (simp add: frame_schema_def)
  have lens: "length ?tys = length ?cols"
    using wf by (simp add: frame_wf_def)
  have names: "fst ` set (t_columns t) = set ?cols"
    using lens by (simp only: sch' set_map [symmetric] map_fst_zip)
  have dist: "distinct ?cols"
    using wf by (simp only: frame_wf_def)
  have reord: "map (\<lambda>r. map (\<lambda>(c, ty). case map_of (zip ?cols r) c of Some v \<Rightarrow> v | None \<Rightarrow> NA)
                  (t_columns t)) (frame_records df) = frame_records df"
  proof (rule map_idI)
    fix r assume "r \<in> set (frame_records df)"
    with wf have len: "length r = length ?cols" by (rule frame_records_length)
    show "map (\<lambda>(c, ty). case map_of (zip ?cols r) c of Some v \<Rightarrow> v | None \<Rightarrow> NA) (t_columns t) = r"
      unfolding sch' using dist lens len by (rule reorder_by_name)
  qed
  have "find (\<lambda>c. c \<notin> fst ` set (t_columns t)) ?cols = None"
    by (simp add: names find_None_iff)
  with reord fits sch show ?thesis
    by (simp add: insert_rows_def frame_fits_def)
qed

lemma to_sql_Append_same_schema:
  assumes "d name = Some t" "t_columns t = frame_schema df" "frame_wf df" "frame_fits df"
  shows "to_sql df name Append d = Inr (d(name \<mapsto> t\<lparr>t_rows := t_rows t @ frame_records df\<rparr>))"
proof -
  have idx: "''index'' \<notin> set (f_columns df)"
    using assms(3) by (simp add: frame_wf_def)
  have "write_rows df t = Inr (t\<lparr>t_rows := t_rows t @ frame_records df\<rparr>)"
  proof (cases "f_rows df = []")
    case True
    then show ?thesis by (simp add: write_rows_def frame_records_def)
  next
    case False
    then show ?thesis
      using insert_rows_same_schema [OF assms(3,4,2)] idx by (simp add: write_rows_def)
  qed
  with assms(1) idx show ?thesis
    by (simp add: to_sql_def)
qed

lemma to_sql_Replace_forgets:
  "to_sql df name Replace d = to_sql df name Replace (d(name := None))"
  by (simp add: to_sql_def Let_def split: option.splits)

end
