(* ===== verification/Config.thy ===== *)
theory Config
  imports Prelude
begin

text \<open>
  The parameters of \<^verbatim>\<open>ingest_data.py\<close>: the click options of \<open>main\<close> with their
  defaults (lines 36--46), the URL of the monthly file built from the year and the
  zero-padded month (lines 9 and 47), and the PostgreSQL connection string handed to
  \<open>create_engine\<close> (line 53). The lemmas show that the file URL determines the year
  and month it was built from (a parser recovers both, for every pair of Python
  integers), and that the connection string does not determine the credentials and host
  (they are pasted in unescaped).
\<close>

section \<open>Options\<close>

record config =
  year :: int
  month :: int
  chunksize :: int
  sql_table_name :: string
  pg_user :: string
  pg_password :: string
  pg_host :: string
  pg_port :: int
  pg_db :: string

definition default_config :: config where
  "default_config =
     \<lparr>year = 2021, month = 1, chunksize = 100000, sql_table_name = ''yellow_taxi_data'',
      pg_user = ''root'', pg_password = ''root'', pg_host = ''localhost'', pg_port = 5432,
      pg_db = ''ny_taxi''\<rparr>"

section \<open>The file URL\<close>

definition prefix :: string where
  "prefix = ''https://github.com/DataTalksClub/nyc-tlc-data/releases/download/yellow''"

text \<open>
  Python's \<open>format(i, '0wd')\<close>: the sign, then zeros up to width \<open>w\<close> (the sign
  counts), then the digits.
\<close>

definition format_0w :: "nat \<Rightarrow> int \<Rightarrow> string" where
  "format_0w w i =
     (let sg = (if i < 0 then ''-'' else []); ds = digits_nat (nat \<bar>i\<bar>)
      in sg @ replicate (w - length sg - length ds) CHR ''0'' @ ds)"

definition ingest_url :: "int \<Rightarrow> int \<Rightarrow> string" where
  "ingest_url y m = prefix @ ''/yellow_tripdata_'' @ py_str_int y @ ''-'' @ format_0w 2 m @ ''.csv.gz''"

section \<open>Reading a file URL back\<close>

text \<open>A Python integer literal as \<open>str\<close> or \<open>format\<close> writes it: a sign, then digits.\<close>

definition parse_int :: "string \<Rightarrow> int option" where
  "parse_int s =
     (case s of
        c # r \<Rightarrow> if c = CHR ''-'' then map_option (\<lambda>n. - int n) (nat_of_digits r)
                 else map_option int (nat_of_digits s)
      | [] \<Rightarrow> None)"

text \<open>
  The year ends at the first \<open>-\<close> after its first character (a negative year starts with
  one); the month is the rest.
\<close>

definition split_year :: "string \<Rightarrow> (string \<times> string) option" where
  "split_year s =
     (case s of
        [] \<Rightarrow> None
      | c # r \<Rightarrow>
          (case dropWhile (\<lambda>x. x \<noteq> CHR ''-'') r of
             [] \<Rightarrow> None
           | _ # m \<Rightarrow> Some (c # takeWhile (\<lambda>x. x \<noteq> CHR ''-'') r, m)))"

definition parse_ingest_url :: "string \<Rightarrow> (int \<times> int) option" where
  "parse_ingest_url u =
     (let pre = prefix @ ''/yellow_tripdata_''; suf = ''.csv.gz''
      in if take (length pre) u = pre \<and> length pre + length suf \<le> length u
            \<and> drop (length u - length suf) u = suf
         then (case split_year (take (length u - length pre - length suf) (drop (length pre) u)) of
                 None \<Rightarrow> None
               | Some (ys, ms) \<Rightarrow>
                   (case (parse_int ys, parse_int ms) of
                      (Some y, Some m) \<Rightarrow> Some (y, m)
                    | _ \<Rightarrow> None))
         else None)"

section \<open>The connection string\<close>

definition engine_url :: "config \<Rightarrow> string" where
  "engine_url cfg =
     ''postgresql://'' @ pg_user cfg @ '':'' @ pg_password cfg @ ''@'' @ pg_host cfg @ '':''
       @ py_str_int (pg_port cfg) @ ''/'' @ pg_db cfg"

section \<open>Lemmas\<close>

lemma digits_no_minus: "CHR ''-'' \<notin> set (digits_nat n)"
  using digits_nat_all_digits [of n] minus_not_digit by blast

lemma digits_val_acc_zeros [simp]:
  "digits_val_acc 0 (replicate k CHR ''0'' @ s) = digits_val_acc 0 s"
  by (induction k) (simp_all add: digit_val_def)

lemma nat_of_digits_zeros:
  "s \<noteq> [] \<Longrightarrow> nat_of_digits (replicate k CHR ''0'' @ s) = nat_of_digits s"
  by (simp add: nat_of_digits_def)

lemma py_str_int_cases:
  "\<exists>c r. py_str_int i = c # r \<and> CHR ''-'' \<notin> set r"
proof (cases "i < 0")
  case True
  then show ?thesis by (simp add: py_str_int_def digits_no_minus)
next
  case False
  obtain c r where "digits_nat (nat i) = c # r"
    using digits_nat_nonempty by (cases "digits_nat (nat i)") auto
  moreover have "CHR ''-'' \<notin> set (digits_nat (nat i))" by (rule digits_no_minus)
  ultimately show ?thesis using False by (simp add: py_str_int_def)
qed

lemma parse_int_py_str_int [simp]: "parse_int (py_str_int i) = Some i"
proof (cases "i < 0")
  case True
  then show ?thesis by (simp add: py_str_int_def parse_int_def)
next
  case False
  obtain c r where cr: "digits_nat (nat i) = c # r"
    using digits_nat_nonempty by (cases "digits_nat (nat i)") auto
  then have "c \<noteq> CHR ''-''" using digits_no_minus [of "nat i"] by auto
  moreover have "nat_of_digits (c # r) = Some (nat i)"
    using nat_of_digits_digits_nat [of "nat i"] by (simp only: cr)
  ultimately show ?thesis using False cr
    by (simp add: py_str_int_def parse_int_def)
qed

lemma parse_int_format_0w [simp]: "parse_int (format_0w w i) = Some i"
proof (cases "i < 0")
  case True
  then show ?thesis
    by (simp add: format_0w_def parse_int_def nat_of_digits_zeros Let_def)
next
  case False
  let ?ds = "digits_nat (nat i)"
  obtain c r where cr: "replicate (w - length ?ds) CHR ''0'' @ ?ds = c # r"
    using digits_nat_nonempty by (cases "replicate (w - length ?ds) CHR ''0'' @ ?ds") auto
  have "c \<noteq> CHR ''-''"
  proof (cases "w - length ?ds")
    case 0
    with cr have "c \<in> set ?ds" by (auto simp: Cons_eq_append_conv)
    then show ?thesis using digits_no_minus by blast
  next
    case (Suc k)
    with cr show ?thesis by auto
  qed
  moreover have "nat_of_digits (c # r) = Some (nat i)"
    using nat_of_digits_zeros [of ?ds "w - length ?ds"] by (simp only: cr) simp
  ultimately show ?thesis using False cr
    by (simp add: format_0w_def parse_int_def Let_def)
qed

lemma split_year_py_str_int:
  "split_year (py_str_int y @ ''-'' @ rest) = Some (py_str_int y, rest)"
proof -
  obtain c r where cr: "py_str_int y = c # r" and nm: "CHR ''-'' \<notin> set r"
    using py_str_int_cases by blast
  from nm have "dropWhile (\<lambda>x. x \<noteq> CHR ''-'') (r @ CHR ''-'' # rest) = CHR ''-'' # rest"
    by (induction r) auto
  moreover from nm have "takeWhile (\<lambda>x. x \<noteq> CHR ''-'') (r @ CHR ''-'' # rest) = r"
    by (induction r) auto
  ultimately show ?thesis by (simp add: split_year_def cr)
qed

lemma wrap_take_drop:
  "take (length pre) (pre @ mid @ suf) = pre"
  "length pre + length suf \<le> length (pre @ mid @ suf)"
  "drop (length (pre @ mid @ suf) - length suf) (pre @ mid @ suf) = suf"
  "take (length (pre @ mid @ suf) - length pre - length suf) (drop (length pre) (pre @ mid @ suf)) = mid"
  by simp_all

lemma parse_ingest_url_wrap:
  "parse_ingest_url ((prefix @ ''/yellow_tripdata_'') @ mid @ ''.csv.gz'') =
     (case split_year mid of
        None \<Rightarrow> None
      | Some (ys, ms) \<Rightarrow> (case (parse_int ys, parse_int ms) of (Some y, Some m) \<Rightarrow> Some (y, m) | _ \<Rightarrow> None))"
  unfolding parse_ingest_url_def Let_def
  by (simp only: wrap_take_drop simp_thms if_True)

text \<open>
  C2. The file URL determines the year and month it was built from: reading it back
  gives both, for every pair of Python integers (negative ones included).
\<close>

lemma parse_ingest_url_ingest_url: "parse_ingest_url (ingest_url y m) = Some (y, m)"
proof -
  have "ingest_url y m = (prefix @ ''/yellow_tripdata_'') @ (py_str_int y @ ''-'' @ format_0w 2 m) @ ''.csv.gz''"
    by (simp add: ingest_url_def)
  then show ?thesis
    by (simp only: parse_ingest_url_wrap split_year_py_str_int) simp
qed

text \<open>
  C3. The connection string does not determine the credentials and host: a password
  containing \<open>@\<close> gives the same string as a different password and host, so the
  engine cannot tell which server and credentials were meant.
\<close>

theorem engine_url_ambiguous:
  "default_config\<lparr>pg_password := ''pa@ss'', pg_host := ''db''\<rparr>
     \<noteq> default_config\<lparr>pg_password := ''pa'', pg_host := ''ss@db''\<rparr>
   \<and> engine_url (default_config\<lparr>pg_password := ''pa@ss'', pg_host := ''db''\<rparr>)
     = engine_url (default_config\<lparr>pg_password := ''pa'', pg_host := ''ss@db''\<rparr>)"
  by (simp add: engine_url_def default_config_def)

end
