(* ===== verification/Loader.thy ===== *)
theory Loader
  imports Database Config
begin

text \<open>
  The ingestion loop of \<^verbatim>\<open>main\<close> in \<^verbatim>\<open>ingest_data.py\<close> (lines 46--85). The world the
  script acts on: the web it downloads from, the PostgreSQL servers by connection
  string, its standard output, and the log of the \<open>to_sql\<close> calls that completed
  (table name, \<open>if_exists\<close> mode, number of rows). \<open>create_engine\<close> only parses the
  connection string, so the connection is made by the first \<open>to_sql\<close>. Each
  \<open>to_sql\<close> either completes or leaves the database as it was; an exception ends the
  run and keeps everything done before it.
  The lemmas unfold runs of the loop into the sequence of frames it reads and give the
  table the first chunk creates.
\<close>

section \<open>The world\<close>

record world =
  web :: "string \<Rightarrow> csv_file option"
  servers :: "string \<Rightarrow> db option"
  stdout :: "string list"
  sql_calls :: "(string \<times> if_exists \<times> nat) list"

definition echo :: "world \<Rightarrow> string \<Rightarrow> world" where
  "echo w s = w\<lparr>stdout := stdout w @ [s]\<rparr>"

text \<open>\<open>df.to_sql(name=..., con=engine, if_exists=...)\<close> against the server of \<open>engine\<close>.\<close>

definition sql_write :: "frame \<Rightarrow> string \<Rightarrow> string \<Rightarrow> if_exists \<Rightarrow> world \<Rightarrow> error + world" where
  "sql_write df name engine ie w =
     (case servers w engine of
        None \<Rightarrow> Inl (DbError ''could not connect to server'')
      | Some d \<Rightarrow>
          (case to_sql df name ie d of
             Inl e \<Rightarrow> Inl e
           | Inr d' \<Rightarrow>
               Inr (w\<lparr>servers := (servers w)(engine \<mapsto> d'),
                      sql_calls := sql_calls w @ [(name, ie, length (f_rows df))]\<rparr>)))"

section \<open>The loop body\<close>

text \<open>Lines 68--76: on the first chunk, create the table from \<open>df_chunk.head(0)\<close>.\<close>

definition create_table :: "string \<Rightarrow> string \<Rightarrow> frame \<Rightarrow> world \<Rightarrow> world outcome" where
  "create_table name engine df w =
     (case sql_write (head0 df) name engine Replace w of
        Inl e \<Rightarrow> Failed e w
      | Inr w' \<Rightarrow> Done (echo w' ''Table created''))"

text \<open>Lines 78--85: append the chunk, print \<open>Inserted: n\<close>.\<close>

definition inserted_line :: "frame \<Rightarrow> string" where
  "inserted_line df = ''Inserted: '' @ digits_nat (length (f_rows df))"

definition insert_chunk :: "string \<Rightarrow> string \<Rightarrow> frame \<Rightarrow> world \<Rightarrow> world outcome" where
  "insert_chunk name engine df w =
     (case sql_write df name engine Append w of
        Inl e \<Rightarrow> Failed e w
      | Inr w' \<Rightarrow> Done (echo w' (inserted_line df)))"

text \<open>Lines 68--85: the body of the \<open>for\<close> loop, with the flag \<open>first\<close>.\<close>

definition loop_body :: "string \<Rightarrow> string \<Rightarrow> bool \<Rightarrow> frame \<Rightarrow> world \<Rightarrow> (bool \<times> world) outcome" where
  "loop_body name engine first df w =
     (if first then
        (case create_table name engine df w of
           Failed e w' \<Rightarrow> Failed e (True, w')
         | Done w' \<Rightarrow> map_outcome (Pair False) (insert_chunk name engine df w'))
      else map_outcome (Pair False) (insert_chunk name engine df w))"

section \<open>The loop\<close>

text \<open>
  Lines 64--85: \<open>for df_chunk in tqdm(df_iter)\<close>, each \<open>next()\<close> reading and converting
  one chunk (and raising if it does not convert). The progress bar writes to standard
  error only and is not modelled.
\<close>

function ingest_loop :: "string \<Rightarrow> string \<Rightarrow> df_iter \<Rightarrow> bool \<Rightarrow> world \<Rightarrow> world outcome" where
  "ingest_loop name engine it first w =
     (case iter_next it of
        None \<Rightarrow> Done w
      | Some (Inl e) \<Rightarrow> Failed e w
      | Some (Inr (df, it')) \<Rightarrow>
          (case loop_body name engine first df w of
             Failed e (f', w') \<Rightarrow> Failed e w'
           | Done (f', w') \<Rightarrow> ingest_loop name engine it' f' w'))"
  by pat_completeness auto
termination
  by (relation "measure (\<lambda>(name, engine, it, first, w). length (it_chunks it))")
     (auto dest: iter_next_decreases)

declare ingest_loop.simps [simp del]

section \<open>\<open>main\<close>\<close>

text \<open>Lines 49--51: the three \<open>click.echo\<close> lines.\<close>

definition echo_banner :: "config \<Rightarrow> world \<Rightarrow> world" where
  "echo_banner cfg w =
     echo (echo (echo w ''Starting data ingestion...'') (''URL: '' @ ingest_url (year cfg) (month cfg)))
       (''Table: '' @ sql_table_name cfg)"

text \<open>Lines 46--85: echo the parameters, open the reader, run the loop.\<close>

definition main :: "config \<Rightarrow> world \<Rightarrow> world outcome" where
  "main cfg w0 =
     (let url = ingest_url (year cfg) (month cfg);
          w1 = echo_banner cfg w0;
          engine = engine_url cfg
      in case read_csv (web w1) url (chunksize cfg) of
           Inl e \<Rightarrow> Failed e w1
         | Inr it \<Rightarrow> ingest_loop (sql_table_name cfg) engine it True w1)"

section \<open>The frames the reader yields\<close>

text \<open>
  The frames \<open>next()\<close> returns one after the other from a list of raw chunks, and the
  error that ends the iteration early, if any.
\<close>

fun frames_of :: "string list \<Rightarrow> nat \<Rightarrow> string list list list \<Rightarrow> frame list \<times> error option" where
  "frames_of hdr c [] = ([], None)"
| "frames_of hdr c (rows # rest) =
     (case make_frame hdr c rows of
        Inl e \<Rightarrow> ([], Some e)
      | Inr df \<Rightarrow> (case frames_of hdr (c + length rows) rest of (dfs, eo) \<Rightarrow> (df # dfs, eo)))"

text \<open>
  The frames of a run agree: all have the schema of the first, are well formed, and
  fit the table that schema describes.
\<close>

definition frames_consistent :: "frame list \<Rightarrow> bool" where
  "frames_consistent dfs \<longleftrightarrow>
     (\<forall>df \<in> set dfs. frame_schema df = frame_schema (hd dfs) \<and> frame_wf df \<and> frame_fits df)"

section \<open>Lemmas: \<open>main\<close>\<close>

lemma web_echo_banner [simp]: "web (echo_banner cfg w) = web w"
  and servers_echo_banner [simp]: "servers (echo_banner cfg w) = servers w"
  and sql_calls_echo_banner [simp]: "sql_calls (echo_banner cfg w) = sql_calls w"
  by (simp_all add: echo_banner_def echo_def)

lemma main_unfold:
  "main cfg w =
     (case read_csv (web w) (ingest_url (year cfg) (month cfg)) (chunksize cfg) of
        Inl e \<Rightarrow> Failed e (echo_banner cfg w)
      | Inr it \<Rightarrow> ingest_loop (sql_table_name cfg) (engine_url cfg) it True (echo_banner cfg w))"
  by (simp add: main_def Let_def)

lemma main_Inr:
  assumes "0 < chunksize cfg"
    and "web w (ingest_url (year cfg) (month cfg)) = Some f" "csv_header f \<noteq> []"
  shows "main cfg w =
           ingest_loop (sql_table_name cfg) (engine_url cfg)
             \<lparr>it_header = csv_header f, it_chunks = pandas_chunks (nat (chunksize cfg)) (csv_rows f),
              it_currow = 0\<rparr> True (echo_banner cfg w)"
  using assms by (simp add: main_unfold read_csv_Inr)

section \<open>Lemmas: one step\<close>

lemma iter_next_Nil: "it_chunks it = [] \<Longrightarrow> iter_next it = None"
  by (simp add: iter_next_def)

lemma iter_next_Cons:
  "it_chunks it = rows # rest \<Longrightarrow>
   iter_next it = Some (map_sum id (\<lambda>df. (df, it\<lparr>it_chunks := rest, it_currow := it_currow it + length rows\<rparr>))
                          (make_frame (it_header it) (it_currow it) rows))"
  by (simp add: iter_next_def split: sum.splits)

lemma sql_write_Append_same_schema:
  assumes "servers w engine = Some d" "d name = Some t" "t_columns t = frame_schema df"
    "frame_wf df" "frame_fits df"
  shows "sql_write df name engine Append w =
           Inr (w\<lparr>servers := (servers w)(engine \<mapsto> d(name \<mapsto> t\<lparr>t_rows := t_rows t @ frame_records df\<rparr>)),
                  sql_calls := sql_calls w @ [(name, Append, length (f_rows df))]\<rparr>)"
  using assms by (simp add: sql_write_def to_sql_Append_same_schema)

section \<open>Lemmas: the loop\<close>

text \<open>
  Once the table exists with the frames' schema, the loop appends every frame the
  reader yields, in order, prints one line per frame, and stops as the reader does.
\<close>

lemma ingest_loop_appends:
  assumes "frames_of (it_header it) (it_currow it) (it_chunks it) = (dfs, eo)"
    and "servers w engine = Some d" and "d name = Some t"
    and "\<forall>df \<in> set dfs. frame_schema df = t_columns t \<and> frame_wf df \<and> frame_fits df"
  shows "ingest_loop name engine it False w =
           finish eo (w\<lparr>servers := (servers w)(engine \<mapsto> d(name \<mapsto> t\<lparr>t_rows := t_rows t @ concat (map frame_records dfs)\<rparr>)),
                        stdout := stdout w @ map inserted_line dfs,
                        sql_calls := sql_calls w @ map (\<lambda>df. (name, Append, length (f_rows df))) dfs\<rparr>)"
  using assms
proof (induction "it_chunks it" arbitrary: it dfs eo w d t)
  case Nil
  then have "d(name \<mapsto> t) = d" "(servers w)(engine \<mapsto> d) = servers w"
    by (simp_all add: fun_upd_idem)
  with Nil show ?case
    by (simp add: ingest_loop.simps [of name engine it] iter_next_Nil)
next
  case (Cons rows rest)
  note ch = Cons.hyps(2) [symmetric]
  show ?case
  proof (cases "make_frame (it_header it) (it_currow it) rows")
    case (Inl e)
    with Cons.prems(1) ch have "dfs = []" "eo = Some e" by simp_all
    moreover have "d(name \<mapsto> t) = d" "(servers w)(engine \<mapsto> d) = servers w"
      using Cons.prems by (simp_all add: fun_upd_idem)
    ultimately show ?thesis using Inl ch
      by (simp add: ingest_loop.simps [of name engine it] iter_next_Cons)
  next
    case (Inr df)
    let ?it' = "it\<lparr>it_chunks := rest, it_currow := it_currow it + length rows\<rparr>"
    obtain dfs' where fr: "frames_of (it_header it) (it_currow it + length rows) rest = (dfs', eo)"
      and dfs: "dfs = df # dfs'"
      using Cons.prems(1) ch Inr by (auto split: prod.splits)
    have ok: "frame_schema df = t_columns t" "frame_wf df" "frame_fits df"
      using Cons.prems(4) dfs by auto
    let ?t1 = "t\<lparr>t_rows := t_rows t @ frame_records df\<rparr>"
    let ?w1 = "echo (w\<lparr>servers := (servers w)(engine \<mapsto> d(name \<mapsto> ?t1)),
                      sql_calls := sql_calls w @ [(name, Append, length (f_rows df))]\<rparr>) (inserted_line df)"
    have body: "loop_body name engine False df w = Done (False, ?w1)"
      using sql_write_Append_same_schema [OF Cons.prems(2,3) ok(1) [symmetric] ok(2,3)]
      by (simp add: loop_body_def insert_chunk_def)
    have step: "ingest_loop name engine it False w = ingest_loop name engine ?it' False ?w1"
      using Inr ch body by (simp add: ingest_loop.simps [of name engine it] iter_next_Cons)
    have IH: "ingest_loop name engine ?it' False ?w1 =
           finish eo (?w1\<lparr>servers := (servers ?w1)(engine \<mapsto> (d(name \<mapsto> ?t1))(name \<mapsto> ?t1\<lparr>t_rows := t_rows ?t1 @ concat (map frame_records dfs')\<rparr>)),
                        stdout := stdout ?w1 @ map inserted_line dfs',
                        sql_calls := sql_calls ?w1 @ map (\<lambda>df. (name, Append, length (f_rows df))) dfs'\<rparr>)"
      by (rule Cons.hyps(1)) (use fr Cons.prems(4) dfs in \<open>simp_all add: echo_def\<close>)
    show ?thesis
      unfolding step IH dfs by (simp add: echo_def)
  qed
qed

lemma sql_write_head0_Replace:
  assumes "servers w engine = Some d" "''index'' \<notin> set (f_columns df)"
  shows "sql_write (head0 df) name engine Replace w =
           Inr (w\<lparr>servers := (servers w)(engine \<mapsto> d(name \<mapsto> \<lparr>t_columns = frame_schema df, t_rows = []\<rparr>)),
                  sql_calls := sql_calls w @ [(name, Replace, 0)]\<rparr>)"
  using assms by (simp add: sql_write_def to_sql_head0_Replace)

lemma ingest_loop_no_frame:
  assumes "frames_of (it_header it) (it_currow it) (it_chunks it) = ([], eo)"
  shows "ingest_loop name engine it first w = finish eo w"
proof (cases "it_chunks it")
  case Nil
  with assms show ?thesis by (simp add: ingest_loop.simps [of name engine it] iter_next_Nil)
next
  case (Cons rows rest)
  with assms obtain e where "make_frame (it_header it) (it_currow it) rows = Inl e" "eo = Some e"
    by (auto split: sum.splits prod.splits)
  with Cons show ?thesis by (simp add: ingest_loop.simps [of name engine it] iter_next_Cons)
qed

lemma ingest_loop_first:
  assumes fr: "frames_of (it_header it) (it_currow it) (it_chunks it) = (df # dfs, eo)"
    and srv: "servers w engine = Some d"
    and ok: "\<forall>df' \<in> set (df # dfs). frame_schema df' = frame_schema df \<and> frame_wf df' \<and> frame_fits df'"
  shows "ingest_loop name engine it True w =
           finish eo (w\<lparr>servers := (servers w)(engine \<mapsto> d(name \<mapsto>
                                \<lparr>t_columns = frame_schema df, t_rows = concat (map frame_records (df # dfs))\<rparr>)),
                        stdout := stdout w @ ''Table created'' # map inserted_line (df # dfs),
                        sql_calls := sql_calls w @ (name, Replace, 0)
                                       # map (\<lambda>df. (name, Append, length (f_rows df))) (df # dfs)\<rparr>)"
proof -
  obtain rows rest where ch: "it_chunks it = rows # rest"
    using fr by (cases "it_chunks it") auto
  have mf: "make_frame (it_header it) (it_currow it) rows = Inr df"
    and fr': "frames_of (it_header it) (it_currow it + length rows) rest = (dfs, eo)"
    using fr ch by (auto split: sum.splits prod.splits)
  let ?it' = "it\<lparr>it_chunks := rest, it_currow := it_currow it + length rows\<rparr>"
  have wf: "frame_wf df" and fits: "frame_fits df"
    using ok by auto
  then have idx: "''index'' \<notin> set (f_columns df)" by (simp add: frame_wf_def)
  let ?t0 = "\<lparr>t_columns = frame_schema df, t_rows = []\<rparr>"
  let ?d0 = "d(name \<mapsto> ?t0)"
  let ?w0 = "echo (w\<lparr>servers := (servers w)(engine \<mapsto> ?d0),
                     sql_calls := sql_calls w @ [(name, Replace, 0)]\<rparr>) ''Table created''"
  have create: "create_table name engine df w = Done ?w0"
    using sql_write_head0_Replace [OF srv idx, of name] by (simp add: create_table_def)
  let ?t1 = "?t0\<lparr>t_rows := t_rows ?t0 @ frame_records df\<rparr>"
  let ?w1 = "echo (?w0\<lparr>servers := (servers ?w0)(engine \<mapsto> ?d0(name \<mapsto> ?t1)),
                      sql_calls := sql_calls ?w0 @ [(name, Append, length (f_rows df))]\<rparr>) (inserted_line df)"
  have ins: "insert_chunk name engine df ?w0 = Done ?w1"
    using sql_write_Append_same_schema [of ?w0 engine ?d0 name ?t0 df] wf fits
    by (simp add: insert_chunk_def echo_def)
  have body: "loop_body name engine True df w = Done (False, ?w1)"
    by (simp add: loop_body_def create ins)
  have step: "ingest_loop name engine it True w = ingest_loop name engine ?it' False ?w1"
    using ch mf body by (simp add: ingest_loop.simps [of name engine it] iter_next_Cons)
  have rest: "ingest_loop name engine ?it' False ?w1 =
           finish eo (?w1\<lparr>servers := (servers ?w1)(engine \<mapsto> (?d0(name \<mapsto> ?t1))(name \<mapsto> ?t1\<lparr>t_rows := t_rows ?t1 @ concat (map frame_records dfs)\<rparr>)),
                        stdout := stdout ?w1 @ map inserted_line dfs,
                        sql_calls := sql_calls ?w1 @ map (\<lambda>df. (name, Append, length (f_rows df))) dfs\<rparr>)"
    by (rule ingest_loop_appends) (use fr' ok in \<open>simp_all add: echo_def\<close>)
  show ?thesis
    unfolding step rest by (simp add: echo_def)
qed

section \<open>Lemmas: the frames\<close>

lemma frames_of_Cons_Inr:
  "frames_of hdr c (rows # rest) = (dfs, eo) \<Longrightarrow> dfs \<noteq> [] \<Longrightarrow>
   \<exists>df dfs'. dfs = df # dfs' \<and> make_frame hdr c rows = Inr df
     \<and> frames_of hdr (c + length rows) rest = (dfs', eo)"
  by (auto split: sum.splits prod.splits)

lemma upt_split: "[c..<c + (a + b)] = [c..<c + a] @ [c + a..<c + (a + b)]"
  using upt_add_eq_append [of c "c + a" b] by (simp add: add.assoc)

lemma frames_of_index:
  "frames_of hdr c cs = (dfs, eo) \<Longrightarrow>
   concat (map f_index dfs) = [c..<c + length (concat (map f_rows dfs))]
   \<and> (\<forall>df \<in> set dfs. length (f_index df) = length (f_rows df))"
proof (induction cs arbitrary: c dfs)
  case Nil
  then show ?case by simp
next
  case (Cons rows rest)
  show ?case
  proof (cases "dfs = []")
    case True
    then show ?thesis by simp
  next
    case False
    with Cons.prems obtain df dfs' where dfs: "dfs = df # dfs'"
      and mf: "make_frame hdr c rows = Inr df"
      and fr: "frames_of hdr (c + length rows) rest = (dfs', eo)"
      by (blast dest: frames_of_Cons_Inr)
    from make_frame_Inr [OF mf] have "f_index df = [c..<c + length rows]" "length (f_rows df) = length rows"
      by simp_all
    with Cons.IH [OF fr] show ?thesis
      by (simp add: dfs upt_split add.assoc)
  qed
qed

lemma frames_of_rows:
  "frames_of hdr c cs = (dfs, None) \<Longrightarrow> length (concat (map f_rows dfs)) = length (concat cs)"
proof (induction cs arbitrary: c dfs)
  case Nil
  then show ?case by simp
next
  case (Cons rows rest)
  from Cons.prems obtain df dfs' where dfs: "dfs = df # dfs'"
    and mf: "make_frame hdr c rows = Inr df"
    and fr: "frames_of hdr (c + length rows) rest = (dfs', None)"
    by (auto split: sum.splits prod.splits)
  from make_frame_Inr [OF mf] Cons.IH [OF fr] show ?case
    by (simp add: dfs)
qed

lemma concat_frame_records:
  "\<forall>df \<in> set dfs. length (f_index df) = length (f_rows df) \<Longrightarrow>
   concat (map frame_records dfs) =
     map2 (\<lambda>i r. VInt (int i) # r) (concat (map f_index dfs)) (concat (map f_rows dfs))"
  by (induction dfs) (simp_all add: frame_records_def)

lemma frames_of_lengths:
  "frames_of hdr c cs = (dfs, None) \<Longrightarrow> map (\<lambda>df. length (f_rows df)) dfs = map length cs"
proof (induction cs arbitrary: c dfs)
  case Nil
  then show ?case by simp
next
  case (Cons rows rest)
  from Cons.prems obtain df dfs' where dfs: "dfs = df # dfs'"
    and mf: "make_frame hdr c rows = Inr df"
    and fr: "frames_of hdr (c + length rows) rest = (dfs', None)"
    by (auto split: sum.splits prod.splits)
  from make_frame_Inr [OF mf] Cons.IH [OF fr] show ?case
    by (simp add: dfs)
qed

section \<open>Lemmas: runs of \<open>main\<close>\<close>

lemma main_run:
  assumes cs: "0 < chunksize cfg"
    and src: "web w (ingest_url (year cfg) (month cfg)) = Some f" "csv_header f \<noteq> []"
    and srv: "servers w (engine_url cfg) = Some d"
    and fr: "frames_of (csv_header f) 0 (pandas_chunks (nat (chunksize cfg)) (csv_rows f)) = (df # dfs, eo)"
    and ok: "frames_consistent (df # dfs)"
  shows "main cfg w =
           finish eo (echo_banner cfg w\<lparr>servers := (servers w)(engine_url cfg \<mapsto>
              d(sql_table_name cfg \<mapsto> \<lparr>t_columns = frame_schema df, t_rows = concat (map frame_records (df # dfs))\<rparr>)),
            stdout := stdout (echo_banner cfg w) @ ''Table created'' # map inserted_line (df # dfs),
            sql_calls := sql_calls w @ (sql_table_name cfg, Replace, 0)
                           # map (\<lambda>df. (sql_table_name cfg, Append, length (f_rows df))) (df # dfs)\<rparr>)"
proof -
  have ok': "\<forall>df' \<in> set (df # dfs). frame_schema df' = frame_schema df \<and> frame_wf df' \<and> frame_fits df'"
    using ok by (simp add: frames_consistent_def)
  have "ingest_loop (sql_table_name cfg) (engine_url cfg)
          \<lparr>it_header = csv_header f, it_chunks = pandas_chunks (nat (chunksize cfg)) (csv_rows f), it_currow = 0\<rparr>
          True (echo_banner cfg w) =
        finish eo (echo_banner cfg w\<lparr>servers := (servers (echo_banner cfg w))(engine_url cfg \<mapsto>
              d(sql_table_name cfg \<mapsto> \<lparr>t_columns = frame_schema df, t_rows = concat (map frame_records (df # dfs))\<rparr>)),
            stdout := stdout (echo_banner cfg w) @ ''Table created'' # map inserted_line (df # dfs),
            sql_calls := sql_calls (echo_banner cfg w) @ (sql_table_name cfg, Replace, 0)
                           # map (\<lambda>df. (sql_table_name cfg, Append, length (f_rows df))) (df # dfs)\<rparr>)"
    by (rule ingest_loop_first) (use fr srv ok' in simp_all)
  then show ?thesis
    by (simp add: main_Inr [OF cs src])
qed

lemma main_no_frame:
  assumes "0 < chunksize cfg"
    and "web w (ingest_url (year cfg) (month cfg)) = Some f" "csv_header f \<noteq> []"
    and "frames_of (csv_header f) 0 (pandas_chunks (nat (chunksize cfg)) (csv_rows f)) = ([], eo)"
  shows "main cfg w = finish eo (echo_banner cfg w)"
  using assms by (simp add: main_Inr ingest_loop_no_frame)

lemma frames_of_pandas_chunks_None:
  "0 < n \<Longrightarrow> frames_of hdr c (pandas_chunks n rows) = (dfs, None) \<Longrightarrow> dfs \<noteq> []"
  using pandas_chunks_nonempty [of n rows]
  by (cases "pandas_chunks n rows") (auto split: sum.splits prod.splits)

lemma ingest_loop_unreachable:
  assumes fr: "frames_of (it_header it) (it_currow it) (it_chunks it) = (df # dfs, eo)"
    and srv: "servers w engine = None"
  shows "ingest_loop name engine it True w = Failed (DbError ''could not connect to server'') w"
proof -
  obtain rows rest where ch: "it_chunks it = rows # rest"
    using fr by (cases "it_chunks it") auto
  have mf: "make_frame (it_header it) (it_currow it) rows = Inr df"
    using fr ch by (auto split: sum.splits prod.splits)
  have "loop_body name engine True df w = Failed (DbError ''could not connect to server'') (True, w)"
    using srv by (simp add: loop_body_def create_table_def sql_write_def)
  with ch mf show ?thesis
    by (simp add: ingest_loop.simps [of name engine it] iter_next_Cons)
qed

text \<open>
  C17. On the first chunk (lines 68--76) the table under the name is replaced by an
  empty table with the columns of the chunk and the index column, whatever table was
  there before; the other tables of the database are untouched, one \<open>to_sql\<close> call
  with \<open>replace\<close> and no rows is logged, and \<open>Table created\<close> is printed.
\<close>

theorem create_table_replaces:
  assumes "''index'' \<notin> set (f_columns df)" and "servers w engine = Some d"
  shows "create_table name engine df w =
           Done (echo (w\<lparr>servers := (servers w)(engine \<mapsto> d(name \<mapsto> \<lparr>t_columns = frame_schema df, t_rows = []\<rparr>)),
                         sql_calls := sql_calls w @ [(name, Replace, 0)]\<rparr>) ''Table created'')"
  using assms by (simp add: create_table_def sql_write_def to_sql_head0_Replace)

theorem create_table_replaces_witness:
  "create_table ''t'' ''e'' \<lparr>f_columns = [''VendorID''], f_dtypes = [Int64], f_index = [0], f_rows = [[VInt 1]]\<rparr>
     \<lparr>web = \<lambda>u. None, servers = \<lambda>e. Some (\<lambda>n. Some \<lparr>t_columns = [], t_rows = [[NA]]\<rparr>),
      stdout = [], sql_calls = []\<rparr>
   = Done \<lparr>web = \<lambda>u. None,
           servers = (\<lambda>e. Some (\<lambda>n. Some \<lparr>t_columns = [], t_rows = [[NA]]\<rparr>))
             (''e'' \<mapsto> (\<lambda>n. Some \<lparr>t_columns = [], t_rows = [[NA]]\<rparr>)
                 (''t'' \<mapsto> \<lparr>t_columns = [(''index'', BIGINT), (''VendorID'', BIGINT)], t_rows = []\<rparr>)),
           stdout = [''Table created''], sql_calls = [(''t'', Replace, 0)]\<rparr>"
  using create_table_replaces
    [of "\<lparr>f_columns = [''VendorID''], f_dtypes = [Int64], f_index = [0], f_rows = [[VInt 1]]\<rparr>"
        "\<lparr>web = \<lambda>u. None, servers = \<lambda>e. Some (\<lambda>n. Some \<lparr>t_columns = [], t_rows = [[NA]]\<rparr>),
          stdout = [], sql_calls = []\<rparr>" "''e''" "\<lambda>n. Some \<lparr>t_columns = [], t_rows = [[NA]]\<rparr>" "''t''"]
  by (simp add: echo_def frame_schema_def)

end
