(* ===== verification/Spec2Isabelle.thy ===== *)
theory Spec2Isabelle
  imports Loader
begin

text \<open>
  \<^bold>\<open>A verified model of \<^verbatim>\<open>ingest_data.py\<close>\<close>, the NYC taxi loader of
  \<^verbatim>\<open>src/01-docker-terraform/docker-sql/workshop/pipeline/ingest_data.py\<close>.

  \<^medskip>\<^bold>\<open>The program.\<close> One script, one function \<open>main\<close>: it builds the URL of a
  monthly CSV file from \<open>--year\<close> and \<open>--month\<close>, opens it with pandas in chunks of
  \<open>--chunksize\<close> rows, typed by the dictionary \<open>dtype\<close> and the list
  \<open>parse_dates\<close>, and writes the chunks to a PostgreSQL table: the first chunk's empty
  head creates (replaces) the table, then every chunk is appended. It prints what it does.
  Errors are not caught: the first exception ends the run and leaves the database as it
  is at that moment.

  \<^medskip>\<^bold>\<open>The theories.\<close>
  \<^item> \<open>Prelude\<close>: the error type (one constructor per kind of exception), the
    \<open>outcome\<close> of a run (\<open>Done\<close> or \<open>Failed\<close> with the state reached), Python's
    decimal \<open>str\<close> of integers and its inverse.
  \<^item> \<open>Schema\<close>: lines 12--34, \<open>dtype\<close> and \<open>parse_dates\<close> as an association list and
    a list, the pandas dtypes, the cells of a row, the SQL types \<open>to_sql\<close> emits.
  \<^item> \<open>Cells\<close>: pandas' conversion of one chunk of text fields into typed cells (NA
    tokens, \<open>Int64\<close> within 64 bits, decimals, timestamps, the per-chunk fallback of a
    date column to text, inference of undeclared columns, the tokenizer's width check).
  \<^item> \<open>Reader\<close>: lines 55--61, \<open>read_csv(..., iterator=True, chunksize=...)\<close>: the
    chunk-size check, the fetch, the split into chunks (one empty chunk for a source
    without rows, typed by \<open>dtype\<close> alone), \<open>next()\<close> with the index continuing
    across chunks.
  \<^item> \<open>Database\<close>: tables, \<open>to_sql\<close> with \<open>if_exists\<close> and its index column
    (\<open>index\<close>, or \<open>level_0\<close> when the frame has a column \<open>index\<close>).
  \<^item> \<open>Config\<close>: lines 9, 36--47, 53: the options and defaults, the file URL with the
    zero-padded month, the connection string.
  \<^item> \<open>Loader\<close>: lines 46--85: the world (web, servers, standard output, the log of
    completed \<open>to_sql\<close> calls), \<open>create_table\<close> (68--76), \<open>insert_chunk\<close>
    (78--85), \<open>loop_body\<close>, the \<open>for\<close> loop \<open>ingest_loop\<close> (a \<^theory_text>\<open>function\<close>
    whose termination is proved: every \<open>next()\<close> consumes a chunk), and \<open>main\<close>.
  \<^item> this theory: the properties of whole runs of \<open>main\<close>.

  \<^medskip>\<^bold>\<open>Modelling choices.\<close> pandas, SQLAlchemy and PostgreSQL are not code of the
  repository; their behaviour is modelled from their documentation as far as the script
  relies on it (marked in the manifest). The iterator is lazy in pandas; splitting the
  lines into chunks cannot fail, so the model holds the raw chunks and converts each when
  \<open>next()\<close> reaches it, which is when pandas raises. A decimal is kept exact (mantissa and
  exponent), not rounded to a double; \<open>inf\<close> is not a \<open>float64\<close> token. Dates are
  recognised in the TLC format \<open>%Y-%m-%d %H:%M:%S\<close> only, where pandas infers the
  format from the first value. PostgreSQL's assignment casts other than integer to
  double are not modelled. The progress bar (\<open>tqdm\<close>, standard error) and
  the network transport are not modelled. No fuel is needed: every loop is structural or
  has a measure.

  \<^medskip>\<^bold>\<open>What is proved.\<close> The lemma groups of each theory give the behaviour of each
  operation; the theorems below give runs of \<open>main\<close>: a successful run loads every
  source row in order, numbered from 0, into a table with the first chunk's schema
  (C1), with the exact sequence of \<open>to_sql\<close> calls and printed lines (C4); a
  header-only source still creates the table and appends once (C5); each kind of
  failure (a later chunk, the first chunk, a bad chunk size, the source, the server) ends
  the run in the state the theorems give (C6, C7, C9--C11); a second run replaces the
  first (C8). The component theories hold the properties of the parts: the file URL
  determines year and month (\<open>Config\<close>, C2) while the connection string does not
  determine the credentials (C3); an \<open>Int64\<close> column reads back every printed integer
  and holds only 64-bit values (\<open>Cells\<close>, C12, C13); a date column with one invalid
  timestamp silently stays text (C14); \<open>read_csv\<close> chunks have the sizes \<open>chunksize\<close>
  dictates and partition the source (\<open>Reader\<close>, C15, C16); the first chunk replaces
  whatever table was there by an empty one (\<open>Loader\<close>, C17). Witnesses run the model
  on small sources with \<open>chunksize = 2\<close>; the theorems themselves hold for every
  positive chunk size.

  \<^medskip>\<^bold>\<open>Not yet modelled.\<close> CSV quoting and decompression (the source is given as
  its header and fields), pandas' renaming of duplicate header names, the parsing of the
  connection string by SQLAlchemy, and the independence of the table's column types from
  the chunk size when every date is valid (a property over the whole \<open>dtype\<close>
  dictionary, left for the next revision).
\<close>

text \<open>
  C1. When the chunk size is positive, the file and the server are reachable, every chunk
  converts, and the chunks agree on their schema, the run finishes and the table holds
  exactly the source's rows, in source order, each numbered by its position: the row
  count is the source's for every chunk size.
\<close>

theorem main_loads_source:
  assumes cs: "0 < chunksize cfg"
    and src: "web w (ingest_url (year cfg) (month cfg)) = Some f" "csv_header f \<noteq> []"
    and srv: "servers w (engine_url cfg) = Some d"
    and fr: "frames_of (csv_header f) 0 (pandas_chunks (nat (chunksize cfg)) (csv_rows f)) = (dfs, None)"
    and ok: "frames_consistent dfs"
  shows "\<exists>w'. main cfg w = Done w'
           \<and> servers w' (engine_url cfg) =
               Some (d(sql_table_name cfg \<mapsto>
                  \<lparr>t_columns = frame_schema (hd dfs),
                   t_rows = map2 (\<lambda>i r. VInt (int i) # r) [0..<length (csv_rows f)] (concat (map f_rows dfs))\<rparr>))
           \<and> length (concat (map f_rows dfs)) = length (csv_rows f)"
proof -
  have n: "0 < nat (chunksize cfg)" using cs by simp
  obtain df dfs' where dfs: "dfs = df # dfs'"
    using frames_of_pandas_chunks_None [OF n fr] by (cases dfs) auto
  have len: "length (concat (map f_rows dfs)) = length (csv_rows f)"
    using frames_of_rows [OF fr] n by simp
  have idx: "concat (map f_index dfs) = [0..<length (csv_rows f)]"
    and ilen: "\<forall>df \<in> set dfs. length (f_index df) = length (f_rows df)"
    using frames_of_index [OF fr] len by simp_all
  note run = main_run [OF cs src srv fr [unfolded dfs] ok [unfolded dfs], folded dfs]
  show ?thesis
    using run len idx concat_frame_records [OF ilen] by (simp add: dfs)
qed

theorem main_loads_source_witness:
  "\<exists>w'. main (default_config\<lparr>chunksize := 2\<rparr>)
              \<lparr>web = (\<lambda>_. Some \<lparr>csv_header = [''VendorID''], csv_rows = [[''1''], [''2''], [''3'']]\<rparr>),
               servers = (\<lambda>_. Some Map.empty), stdout = [], sql_calls = []\<rparr> = Done w'
        \<and> servers w' (engine_url (default_config\<lparr>chunksize := 2\<rparr>)) =
            Some [''yellow_taxi_data'' \<mapsto>
              \<lparr>t_columns = [(''index'', BIGINT), (''VendorID'', BIGINT)],
               t_rows = [[VInt 0, VInt 1], [VInt 1, VInt 2], [VInt 2, VInt 3]]\<rparr>]"
proof -
  let ?cfg = "default_config\<lparr>chunksize := 2\<rparr>"
  let ?f = "\<lparr>csv_header = [''VendorID''], csv_rows = [[''1''], [''2''], [''3'']]\<rparr>"
  let ?w = "\<lparr>web = (\<lambda>_. Some ?f), servers = (\<lambda>_. Some Map.empty), stdout = [], sql_calls = []\<rparr> :: world"
  let ?dfs = "[\<lparr>f_columns = [''VendorID''], f_dtypes = [Int64], f_index = [0, 1], f_rows = [[VInt 1], [VInt 2]]\<rparr>,
               \<lparr>f_columns = [''VendorID''], f_dtypes = [Int64], f_index = [2], f_rows = [[VInt 3]]\<rparr>]"
  have h1: "0 < chunksize ?cfg" by simp
  have h2: "web ?w (ingest_url (year ?cfg) (month ?cfg)) = Some ?f" by simp
  have h3: "csv_header ?f \<noteq> []" by simp
  have h4: "servers ?w (engine_url ?cfg) = Some Map.empty" by simp
  have h5: "frames_of (csv_header ?f) 0 (pandas_chunks (nat (chunksize ?cfg)) (csv_rows ?f)) = (?dfs, None)"
    by code_simp
  have h6: "frames_consistent ?dfs"
    by code_simp
  show ?thesis
    using main_loads_source [OF h1 h2 h3 h4 h5 h6] by (simp add: frame_schema_def default_config_def)
qed

text \<open>
  C4. The script calls \<open>to_sql\<close> exactly once with \<open>replace\<close> (on the empty head of the
  first chunk, so with no rows) and then once with \<open>append\<close> per chunk, with the chunk
  sizes in order; its output is the three banner lines, \<open>Table created\<close>, and one
  \<open>Inserted: n\<close> line per chunk.
\<close>

theorem main_call_sequence:
  assumes cs: "0 < chunksize cfg"
    and src: "web w (ingest_url (year cfg) (month cfg)) = Some f" "csv_header f \<noteq> []"
    and srv: "servers w (engine_url cfg) = Some d"
    and fr: "frames_of (csv_header f) 0 (pandas_chunks (nat (chunksize cfg)) (csv_rows f)) = (dfs, None)"
    and ok: "frames_consistent dfs"
  shows "\<exists>w'. main cfg w = Done w'
           \<and> sql_calls w' = sql_calls w @ (sql_table_name cfg, Replace, 0)
                 # map (\<lambda>k. (sql_table_name cfg, Append, k)) (map length (pandas_chunks (nat (chunksize cfg)) (csv_rows f)))
           \<and> stdout w' = stdout w @ [''Starting data ingestion...'', ''URL: '' @ ingest_url (year cfg) (month cfg),
                 ''Table: '' @ sql_table_name cfg, ''Table created'']
                 @ map (\<lambda>k. ''Inserted: '' @ digits_nat k) (map length (pandas_chunks (nat (chunksize cfg)) (csv_rows f)))"
proof -
  obtain df dfs' where dfs: "dfs = df # dfs'"
    using frames_of_pandas_chunks_None [of "nat (chunksize cfg)"] cs fr by (cases dfs) auto
  have lens: "map (\<lambda>df. length (f_rows df)) dfs = map length (pandas_chunks (nat (chunksize cfg)) (csv_rows f))"
    by (rule frames_of_lengths [OF fr])
  have calls: "map (\<lambda>df. (sql_table_name cfg, Append, length (f_rows df))) dfs
      = map (\<lambda>k. (sql_table_name cfg, Append, k)) (map length (pandas_chunks (nat (chunksize cfg)) (csv_rows f)))"
    by (simp only: lens [symmetric] map_map comp_def)
  have lines: "map inserted_line dfs
      = map (\<lambda>k. ''Inserted: '' @ digits_nat k) (map length (pandas_chunks (nat (chunksize cfg)) (csv_rows f)))"
    by (simp only: lens [symmetric] map_map comp_def) (simp add: inserted_line_def)
  note run = main_run [OF cs src srv fr [unfolded dfs] ok [unfolded dfs], folded dfs]
  show ?thesis
    by (simp only: run calls lines finish.simps) (simp add: echo_banner_def echo_def)
qed

theorem main_call_sequence_witness:
  "\<exists>w'. main (default_config\<lparr>chunksize := 2\<rparr>) \<lparr>web = (\<lambda>_. Some \<lparr>csv_header = [''VendorID''], csv_rows = [[''1''], [''2''], [''3''], [''4''], [''5'']]\<rparr>), servers = (\<lambda>_. Some Map.empty), stdout = [], sql_calls = []\<rparr> = Done w'
        \<and> sql_calls w' = [(''yellow_taxi_data'', Replace, 0), (''yellow_taxi_data'', Append, 2),
                            (''yellow_taxi_data'', Append, 2), (''yellow_taxi_data'', Append, 1)]
        \<and> stdout w' = [''Starting data ingestion...'', ''URL: '' @ ingest_url 2021 1, ''Table: yellow_taxi_data'',
                         ''Table created'', ''Inserted: 2'', ''Inserted: 2'', ''Inserted: 1'']"
proof -
  let ?cfg = "default_config\<lparr>chunksize := 2\<rparr>"
  let ?f = "\<lparr>csv_header = [''VendorID''], csv_rows = [[''1''], [''2''], [''3''], [''4''], [''5'']]\<rparr>"
  let ?w = "\<lparr>web = (\<lambda>_. Some \<lparr>csv_header = [''VendorID''], csv_rows = [[''1''], [''2''], [''3''], [''4''], [''5'']]\<rparr>), servers = (\<lambda>_. Some Map.empty), stdout = [], sql_calls = []\<rparr> :: world"
  let ?dfs = "[\<lparr>f_columns = [''VendorID''], f_dtypes = [Int64], f_index = [0, 1], f_rows = [[VInt 1], [VInt 2]]\<rparr>,
               \<lparr>f_columns = [''VendorID''], f_dtypes = [Int64], f_index = [2, 3], f_rows = [[VInt 3], [VInt 4]]\<rparr>,
               \<lparr>f_columns = [''VendorID''], f_dtypes = [Int64], f_index = [4], f_rows = [[VInt 5]]\<rparr>]"
  have h1: "0 < chunksize ?cfg" by simp
  have h2: "web ?w (ingest_url (year ?cfg) (month ?cfg)) = Some ?f" by simp
  have h3: "csv_header ?f \<noteq> []" by simp
  have h4: "servers ?w (engine_url ?cfg) = Some Map.empty" by simp
  have h5: "frames_of (csv_header ?f) 0 (pandas_chunks (nat (chunksize ?cfg)) (csv_rows ?f)) = (?dfs, None)"
    by code_simp
  have h6: "frames_consistent ?dfs"
    by code_simp
  have ch: "map length (pandas_chunks (nat (chunksize ?cfg)) (csv_rows ?f)) = [2, 2, 1]"
    by code_simp
  have ds: "digits_nat 2 = ''2''" "digits_nat (Suc 0) = ''1''"
    by code_simp+
  show ?thesis
    using main_call_sequence [OF h1 h2 h3 h4 h5 h6, unfolded ch] by (simp add: ds default_config_def)
qed

text \<open>
  C5. A source with a header and no rows still creates the table, with the index column
  and the header's columns typed as pandas types an empty column, and no rows; and
  \<open>to_sql\<close> is called with \<open>append\<close> once, for the empty chunk pandas yields (the spec
  says no append call happens).
\<close>

theorem main_empty_source:
  assumes cs: "0 < chunksize cfg"
    and src: "web w (ingest_url (year cfg) (month cfg)) = Some f" "csv_header f \<noteq> []"
    and empty: "csv_rows f = []"
    and names: "distinct (''index'' # csv_header f)"
    and srv: "servers w (engine_url cfg) = Some d"
  shows "\<exists>w'. main cfg w = Done w'
           \<and> servers w' (engine_url cfg) =
               Some (d(sql_table_name cfg \<mapsto>
                  \<lparr>t_columns = (''index'', BIGINT) # map (\<lambda>c. (c, sql_type_of (empty_column_dtype c))) (csv_header f),
                   t_rows = []\<rparr>))
           \<and> sql_calls w' = sql_calls w @ [(sql_table_name cfg, Replace, 0), (sql_table_name cfg, Append, 0)]"
proof -
  let ?df = "\<lparr>f_columns = csv_header f, f_dtypes = map empty_column_dtype (csv_header f), f_index = [], f_rows = []\<rparr>"
  have fr: "frames_of (csv_header f) 0 (pandas_chunks (nat (chunksize cfg)) (csv_rows f)) = ([?df], None)"
    using empty by (simp add: pandas_chunks_def make_frame_def convert_chunk_Nil)
  have ok: "frames_consistent [?df]"
    using names by (simp add: frames_consistent_def frame_wf_def frame_fits_def frame_records_def)
  have sch: "frame_schema ?df = (''index'', BIGINT) # map (\<lambda>c. (c, sql_type_of (empty_column_dtype c))) (csv_header f)"
    using names by (simp add: frame_schema_def zip_map2 zip_same_conv_map comp_def)
  show ?thesis
    using main_run [OF cs src srv fr ok] sch by (simp add: frame_records_def)
qed

theorem main_empty_source_witness:
  "\<exists>w'. main default_config
          \<lparr>web = (\<lambda>_. Some \<lparr>csv_header = [''VendorID'', ''airport_fee''], csv_rows = []\<rparr>),
           servers = (\<lambda>_. Some Map.empty), stdout = [], sql_calls = []\<rparr> = Done w'
        \<and> servers w' (engine_url default_config) =
            Some [''yellow_taxi_data'' \<mapsto>
              \<lparr>t_columns = [(''index'', BIGINT), (''VendorID'', BIGINT), (''airport_fee'', TEXT)], t_rows = []\<rparr>]
        \<and> sql_calls w' = [(''yellow_taxi_data'', Replace, 0), (''yellow_taxi_data'', Append, 0)]"
proof -
  let ?f = "\<lparr>csv_header = [''VendorID'', ''airport_fee''], csv_rows = []\<rparr>"
  let ?w = "\<lparr>web = (\<lambda>_. Some ?f), servers = (\<lambda>_. Some Map.empty), stdout = [], sql_calls = []\<rparr> :: world"
  have h1: "0 < chunksize default_config" by (simp add: default_config_def)
  have h2: "web ?w (ingest_url (year default_config) (month default_config)) = Some ?f" by simp
  have h3: "csv_header ?f \<noteq> []" by simp
  have h4: "csv_rows ?f = []" by simp
  have h5: "distinct (''index'' # csv_header ?f)" by simp
  have h6: "servers ?w (engine_url default_config) = Some Map.empty" by simp
  have ty: "empty_column_dtype ''VendorID'' = Int64" "empty_column_dtype ''airport_fee'' = PdObject"
    by code_simp+
  show ?thesis
    using main_empty_source [OF h1 h2 h3 h4 h5 h6] by (simp add: ty default_config_def)
qed

text \<open>
  C6. When a chunk fails to convert after others were loaded, the run ends with that
  error and the table keeps the rows of the chunks before it: nothing is rolled back.
\<close>

theorem main_error_keeps_loaded_chunks:
  assumes cs: "0 < chunksize cfg"
    and src: "web w (ingest_url (year cfg) (month cfg)) = Some f" "csv_header f \<noteq> []"
    and srv: "servers w (engine_url cfg) = Some d"
    and fr: "frames_of (csv_header f) 0 (pandas_chunks (nat (chunksize cfg)) (csv_rows f)) = (df # dfs, Some e)"
    and ok: "frames_consistent (df # dfs)"
  shows "\<exists>w'. main cfg w = Failed e w'
           \<and> servers w' (engine_url cfg) =
               Some (d(sql_table_name cfg \<mapsto>
                  \<lparr>t_columns = frame_schema df, t_rows = concat (map frame_records (df # dfs))\<rparr>))"
  using main_run [OF cs src srv fr ok] by simp

theorem main_error_keeps_loaded_chunks_witness:
  "\<exists>w'. main (default_config\<lparr>chunksize := 2\<rparr>) \<lparr>web = (\<lambda>_. Some \<lparr>csv_header = [''VendorID''], csv_rows = [[''1''], [''2''], [''abc''], [''4'']]\<rparr>), servers = (\<lambda>_. Some Map.empty), stdout = [], sql_calls = []\<rparr> = Failed (CastError ''VendorID'' ''abc'') w'
        \<and> servers w' (engine_url (default_config\<lparr>chunksize := 2\<rparr>)) =
            Some [''yellow_taxi_data'' \<mapsto>
              \<lparr>t_columns = [(''index'', BIGINT), (''VendorID'', BIGINT)],
               t_rows = [[VInt 0, VInt 1], [VInt 1, VInt 2]]\<rparr>]"
proof -
  let ?cfg = "default_config\<lparr>chunksize := 2\<rparr>"
  let ?f = "\<lparr>csv_header = [''VendorID''], csv_rows = [[''1''], [''2''], [''abc''], [''4'']]\<rparr>"
  let ?w = "\<lparr>web = (\<lambda>_. Some \<lparr>csv_header = [''VendorID''], csv_rows = [[''1''], [''2''], [''abc''], [''4'']]\<rparr>), servers = (\<lambda>_. Some Map.empty), stdout = [], sql_calls = []\<rparr> :: world"
  let ?df = "\<lparr>f_columns = [''VendorID''], f_dtypes = [Int64], f_index = [0, 1], f_rows = [[VInt 1], [VInt 2]]\<rparr>"
  have h1: "0 < chunksize ?cfg" by simp
  have h2: "web ?w (ingest_url (year ?cfg) (month ?cfg)) = Some ?f" by simp
  have h3: "csv_header ?f \<noteq> []" by simp
  have h4: "servers ?w (engine_url ?cfg) = Some Map.empty" by simp
  have h5: "frames_of (csv_header ?f) 0 (pandas_chunks (nat (chunksize ?cfg)) (csv_rows ?f))
              = ([?df], Some (CastError ''VendorID'' ''abc''))"
    by code_simp
  have h6: "frames_consistent [?df]"
    by code_simp
  show ?thesis
    using main_error_keeps_loaded_chunks [OF h1 h2 h3 h4 h5 h6]
    by (simp add: frame_schema_def frame_records_def default_config_def)
qed

text \<open>
  C7. When the first chunk fails to convert, the run ends before any \<open>to_sql\<close>: an
  existing table of that name is neither replaced nor changed, and no call is made.
\<close>

theorem main_first_chunk_fails:
  assumes cs: "0 < chunksize cfg"
    and src: "web w (ingest_url (year cfg) (month cfg)) = Some f" "csv_header f \<noteq> []"
    and fr: "frames_of (csv_header f) 0 (pandas_chunks (nat (chunksize cfg)) (csv_rows f)) = ([], Some e)"
  shows "\<exists>w'. main cfg w = Failed e w' \<and> servers w' = servers w \<and> sql_calls w' = sql_calls w"
  using main_no_frame [OF cs src fr] by simp

theorem main_first_chunk_fails_witness:
  "\<exists>w'. main (default_config\<lparr>chunksize := 2\<rparr>) \<lparr>web = (\<lambda>_. Some \<lparr>csv_header = [''VendorID''], csv_rows = [[''1.5'']]\<rparr>), servers = (\<lambda>_. Some [''yellow_taxi_data'' \<mapsto> \<lparr>t_columns = [], t_rows = []\<rparr>]), stdout = [], sql_calls = []\<rparr> = Failed (CastError ''VendorID'' ''1.5'') w'
        \<and> servers w' = (\<lambda>_. Some [''yellow_taxi_data'' \<mapsto> \<lparr>t_columns = [], t_rows = []\<rparr>])
        \<and> sql_calls w' = []"
proof -
  let ?f = "\<lparr>csv_header = [''VendorID''], csv_rows = [[''1.5'']]\<rparr>"
  let ?w = "\<lparr>web = (\<lambda>_. Some \<lparr>csv_header = [''VendorID''], csv_rows = [[''1.5'']]\<rparr>), servers = (\<lambda>_. Some [''yellow_taxi_data'' \<mapsto> \<lparr>t_columns = [], t_rows = []\<rparr>]), stdout = [], sql_calls = []\<rparr> :: world"
  have h1: "0 < chunksize (default_config\<lparr>chunksize := 2\<rparr>)" by simp
  have h2: "web ?w (ingest_url (year (default_config\<lparr>chunksize := 2\<rparr>)) (month (default_config\<lparr>chunksize := 2\<rparr>))) = Some ?f" by simp
  have h3: "csv_header ?f \<noteq> []" by simp
  have h4: "frames_of (csv_header ?f) 0 (pandas_chunks (nat (chunksize (default_config\<lparr>chunksize := 2\<rparr>))) (csv_rows ?f))
              = ([], Some (CastError ''VendorID'' ''1.5''))"
    by code_simp
  show ?thesis
    using main_first_chunk_fails [OF h1 h2 h3 h4] by simp
qed

text \<open>
  C8. Running the script a second time on the same source leaves the table exactly as the
  first run left it: the first chunk replaces the table, so rows are never duplicated.
\<close>

theorem main_rerun_replaces:
  assumes cs: "0 < chunksize cfg"
    and src: "web w (ingest_url (year cfg) (month cfg)) = Some f" "csv_header f \<noteq> []"
    and srv: "servers w (engine_url cfg) = Some d"
    and fr: "frames_of (csv_header f) 0 (pandas_chunks (nat (chunksize cfg)) (csv_rows f)) = (dfs, None)"
    and ok: "frames_consistent dfs"
  shows "\<exists>w1 w2. main cfg w = Done w1 \<and> main cfg w1 = Done w2
           \<and> servers w2 (engine_url cfg) = servers w1 (engine_url cfg)"
proof -
  obtain df dfs' where dfs: "dfs = df # dfs'"
    using frames_of_pandas_chunks_None [of "nat (chunksize cfg)"] cs fr by (cases dfs) auto
  let ?T = "\<lparr>t_columns = frame_schema df, t_rows = concat (map frame_records (df # dfs'))\<rparr>"
  note run1 = main_run [OF cs src srv fr [unfolded dfs] ok [unfolded dfs]]
  let ?w1 = "echo_banner cfg w\<lparr>servers := (servers w)(engine_url cfg \<mapsto> d(sql_table_name cfg \<mapsto> ?T)),
            stdout := stdout (echo_banner cfg w) @ ''Table created'' # map inserted_line (df # dfs'),
            sql_calls := sql_calls w @ (sql_table_name cfg, Replace, 0)
                           # map (\<lambda>df. (sql_table_name cfg, Append, length (f_rows df))) (df # dfs')\<rparr>"
  have src1: "web ?w1 (ingest_url (year cfg) (month cfg)) = Some f" using src by simp
  have srv1: "servers ?w1 (engine_url cfg) = Some (d(sql_table_name cfg \<mapsto> ?T))" by simp
  note run2 = main_run [OF cs src1 src(2) srv1 fr [unfolded dfs] ok [unfolded dfs]]
  show ?thesis
    using run1 run2 by simp
qed

theorem main_rerun_replaces_witness:
  "\<exists>w1 w2. main (default_config\<lparr>chunksize := 2\<rparr>) \<lparr>web = (\<lambda>_. Some \<lparr>csv_header = [''VendorID''], csv_rows = [[''1''], [''2''], [''3'']]\<rparr>), servers = (\<lambda>_. Some Map.empty), stdout = [], sql_calls = []\<rparr> = Done w1
        \<and> main (default_config\<lparr>chunksize := 2\<rparr>) w1 = Done w2 \<and> servers w2 (engine_url (default_config\<lparr>chunksize := 2\<rparr>)) = servers w1 (engine_url (default_config\<lparr>chunksize := 2\<rparr>))"
proof -
  let ?cfg = "default_config\<lparr>chunksize := 2\<rparr>"
  let ?f = "\<lparr>csv_header = [''VendorID''], csv_rows = [[''1''], [''2''], [''3'']]\<rparr>"
  let ?w = "\<lparr>web = (\<lambda>_. Some \<lparr>csv_header = [''VendorID''], csv_rows = [[''1''], [''2''], [''3'']]\<rparr>), servers = (\<lambda>_. Some Map.empty), stdout = [], sql_calls = []\<rparr> :: world"
  let ?dfs = "[\<lparr>f_columns = [''VendorID''], f_dtypes = [Int64], f_index = [0, 1], f_rows = [[VInt 1], [VInt 2]]\<rparr>,
               \<lparr>f_columns = [''VendorID''], f_dtypes = [Int64], f_index = [2], f_rows = [[VInt 3]]\<rparr>]"
  have h1: "0 < chunksize ?cfg" by simp
  have h2: "web ?w (ingest_url (year ?cfg) (month ?cfg)) = Some ?f" by simp
  have h3: "csv_header ?f \<noteq> []" by simp
  have h4: "servers ?w (engine_url ?cfg) = Some Map.empty" by simp
  have h5: "frames_of (csv_header ?f) 0 (pandas_chunks (nat (chunksize ?cfg)) (csv_rows ?f)) = (?dfs, None)"
    by code_simp
  have h6: "frames_consistent ?dfs"
    by code_simp
  show ?thesis
    by (rule main_rerun_replaces [OF h1 h2 h3 h4 h5 h6])
qed

text \<open>
  C9. A chunk size below 1 is refused by \<open>read_csv\<close> before the source is opened and
  before the database is touched.
\<close>

theorem main_bad_chunksize:
  "chunksize cfg < 1 \<Longrightarrow> main cfg w = Failed (ChunksizeError (chunksize cfg)) (echo_banner cfg w)"
  by (simp add: main_unfold read_csv_def)

theorem main_bad_chunksize_witness:
  "chunksize (default_config\<lparr>chunksize := 0\<rparr>) < 1
   \<and> main (default_config\<lparr>chunksize := 0\<rparr>) \<lparr>web = (\<lambda>_. Some \<lparr>csv_header = [''VendorID''], csv_rows = [[''1''], [''2''], [''3''], [''4''], [''5'']]\<rparr>), servers = (\<lambda>_. Some Map.empty), stdout = [], sql_calls = []\<rparr>
       = Failed (ChunksizeError 0) (echo_banner (default_config\<lparr>chunksize := 0\<rparr>) \<lparr>web = (\<lambda>_. Some \<lparr>csv_header = [''VendorID''], csv_rows = [[''1''], [''2''], [''3''], [''4''], [''5'']]\<rparr>), servers = (\<lambda>_. Some Map.empty), stdout = [], sql_calls = []\<rparr>)"
  using main_bad_chunksize [of "default_config\<lparr>chunksize := 0\<rparr>" "\<lparr>web = (\<lambda>_. Some \<lparr>csv_header = [''VendorID''], csv_rows = [[''1''], [''2''], [''3''], [''4''], [''5'']]\<rparr>), servers = (\<lambda>_. Some Map.empty), stdout = [], sql_calls = []\<rparr>"] by simp

text \<open>
  C10. When the file cannot be fetched, the run fails at \<open>read_csv\<close> with the URL,
  before the database is touched.
\<close>

theorem main_source_unavailable:
  "0 < chunksize cfg \<Longrightarrow> web w (ingest_url (year cfg) (month cfg)) = None \<Longrightarrow>
   main cfg w = Failed (SourceError (ingest_url (year cfg) (month cfg))) (echo_banner cfg w)"
  by (simp add: main_unfold read_csv_def)

theorem main_source_unavailable_witness:
  "main default_config \<lparr>web = (\<lambda>_. None), servers = (\<lambda>_. Some Map.empty), stdout = [], sql_calls = []\<rparr>
     = Failed (SourceError (ingest_url 2021 1)) (echo_banner default_config \<lparr>web = (\<lambda>_. None), servers = (\<lambda>_. Some Map.empty), stdout = [], sql_calls = []\<rparr>)"
  using main_source_unavailable [of default_config "\<lparr>web = (\<lambda>_. None), servers = (\<lambda>_. Some Map.empty), stdout = [], sql_calls = []\<rparr>"]
  by (simp add: default_config_def)

text \<open>
  C11. When the database server cannot be reached, the run fails at the first
  \<open>to_sql\<close>, after reading the first chunk, and the world is left as the banner left it.
\<close>

theorem main_server_unreachable:
  assumes cs: "0 < chunksize cfg"
    and src: "web w (ingest_url (year cfg) (month cfg)) = Some f" "csv_header f \<noteq> []"
    and srv: "servers w (engine_url cfg) = None"
    and fr: "frames_of (csv_header f) 0 (pandas_chunks (nat (chunksize cfg)) (csv_rows f)) = (df # dfs, eo)"
  shows "main cfg w = Failed (DbError ''could not connect to server'') (echo_banner cfg w)"
  using ingest_loop_unreachable [of _ df dfs eo "echo_banner cfg w"] fr srv
  by (simp add: main_Inr [OF cs src])

theorem main_server_unreachable_witness:
  "main (default_config\<lparr>chunksize := 2\<rparr>) \<lparr>web = (\<lambda>_. Some \<lparr>csv_header = [''VendorID''], csv_rows = [[''1''], [''2''], [''3''], [''4''], [''5'']]\<rparr>), servers = (\<lambda>_. None), stdout = [], sql_calls = []\<rparr>
     = Failed (DbError ''could not connect to server'') (echo_banner (default_config\<lparr>chunksize := 2\<rparr>) \<lparr>web = (\<lambda>_. Some \<lparr>csv_header = [''VendorID''], csv_rows = [[''1''], [''2''], [''3''], [''4''], [''5'']]\<rparr>), servers = (\<lambda>_. None), stdout = [], sql_calls = []\<rparr>)"
proof -
  let ?f = "\<lparr>csv_header = [''VendorID''], csv_rows = [[''1''], [''2''], [''3''], [''4''], [''5'']]\<rparr>"
  let ?w = "\<lparr>web = (\<lambda>_. Some \<lparr>csv_header = [''VendorID''], csv_rows = [[''1''], [''2''], [''3''], [''4''], [''5'']]\<rparr>), servers = (\<lambda>_. None), stdout = [], sql_calls = []\<rparr> :: world"
  let ?dfs = "[\<lparr>f_columns = [''VendorID''], f_dtypes = [Int64], f_index = [0, 1], f_rows = [[VInt 1], [VInt 2]]\<rparr>,
               \<lparr>f_columns = [''VendorID''], f_dtypes = [Int64], f_index = [2, 3], f_rows = [[VInt 3], [VInt 4]]\<rparr>,
               \<lparr>f_columns = [''VendorID''], f_dtypes = [Int64], f_index = [4], f_rows = [[VInt 5]]\<rparr>]"
  have h1: "0 < chunksize (default_config\<lparr>chunksize := 2\<rparr>)" by simp
  have h2: "web ?w (ingest_url (year (default_config\<lparr>chunksize := 2\<rparr>)) (month (default_config\<lparr>chunksize := 2\<rparr>))) = Some ?f" by simp
  have h3: "csv_header ?f \<noteq> []" by simp
  have h4: "servers ?w (engine_url (default_config\<lparr>chunksize := 2\<rparr>)) = None" by simp
  have h5: "frames_of (csv_header ?f) 0 (pandas_chunks (nat (chunksize (default_config\<lparr>chunksize := 2\<rparr>))) (csv_rows ?f)) = (hd ?dfs # tl ?dfs, None)"
    by code_simp
  show ?thesis
    by (rule main_server_unreachable [OF h1 h2 h3 h4 h5])
qed

end
